theory Spec2Isabelle
  imports Complex_Main
begin

section \<open>Shared data\<close>

text \<open>
  The storefront is a set of React components over a remote store. The embedding keeps
  one application state (the product of the components' states and of the remote tables
  they write), and every handler is a function from state to state. What an external
  collaborator answered (the remote store, the payment SDK) is an argument of the
  handler: \<open>Inl err\<close> for the \<open>error\<close> member of a reply, \<open>Inr data\<close> for its
  \<open>data\<close>. JavaScript numbers are modelled as exact numbers: prices and amounts as
  \<open>real\<close>, quantities and stock counts (INTEGER columns) as \<open>int\<close>. Toast descriptions and
  console output are display text and are left out; a toast keeps its title and variant.
  Handlers run one after another, each on the state the one before left: the components
  re-render between two user actions, so a handler reads the current state.
  Record fields keep the source's names and are written qualified
  (\<open>CartItem.quantity item\<close> for \<open>item.quantity\<close>); a parameter whose name is a
  field's is primed (\<open>id'\<close>, \<open>quantity'\<close>).
\<close>

type_synonym 'a response = "string + 'a"

record Toast =
  title :: string
  variant :: "string option"

record CartItem =
  id :: string
  product_id :: string
  product_name :: string
  product_image :: string
  price :: real
  quantity :: int
  grind_type :: string
  bag_size :: string

record ShippingInfo =
  name :: string
  email :: string
  phone :: string
  address :: string
  city :: string
  state :: string
  pincode :: string

text \<open>Rows of the remote tables, with the columns the code writes or reads.\<close>

record Order =
  id :: string
  user_id :: string
  status :: string
  total_amount :: real
  shipping_name :: string
  shipping_email :: string
  shipping_phone :: string
  shipping_address :: string
  shipping_city :: string
  shipping_state :: string
  shipping_pincode :: string
  payment_status :: string
  payment_id :: "string option"

record OrderItem =
  order_id :: string
  product_name :: string
  grind_type :: string
  bag_size :: string
  quantity :: int
  unit_price :: real

record Product =
  id :: string
  name :: string

record Variant =
  id :: string
  product_id :: string
  grind_type :: string
  size :: string
  stock_count :: int

record DB =
  orders :: "Order list"
  order_items :: "OrderItem list"
  products :: "Product list"
  variants :: "Variant list"

text \<open>The options object \<open>openPayment\<close> builds and hands to \<open>new window.Razorpay\<close>.\<close>

record RazorpayOptions =
  key :: string
  amount :: real
  currency :: string
  name :: string
  description :: "string option"
  image :: string
  order_id :: "string option"
  prefill_name :: "string option"
  prefill_email :: "string option"
  prefill_contact :: "string option"
  notes_order_id :: "string option"
  theme_color :: string

record PaymentOptions =
  amount :: real
  currency :: "string option"
  name :: string
  description :: "string option"
  orderId :: "string option"
  prefill_name :: "string option"
  prefill_email :: "string option"
  prefill_contact :: "string option"
  notes_order_id :: "string option"

record RazorpayResponse =
  razorpay_payment_id :: string

record App =
  user :: "string option"
  items :: "CartItem list"
  toasts :: "Toast list"
  currentStep :: int
  loading :: bool
  paymentMethod :: string
  shippingInfo :: ShippingInfo
  location :: string
  db :: DB
  adminOrders :: "Order list"
  selectedOrder :: "Order option"
  gatewayCalls :: "RazorpayOptions list"

definition toast :: "string \<Rightarrow> string option \<Rightarrow> App \<Rightarrow> App" where
  "toast t v st = st\<lparr>toasts := toasts st @ [\<lparr>title = t, variant = v\<rparr>]\<rparr>"

section \<open>Cart aggregator (CartContext.tsx)\<close>

text \<open>
  \<open>items\<close> is the in-memory mirror of the user's \<open>cart_items\<close> rows. Each handler
  issues at most one remote call; its reply is the first argument. For an insert the
  reply's data is the inserted row, that is the item with the id the store generated, so
  the reply carries that id. \<open>Omit<CartItem, "id">\<close> is a \<open>CartItem\<close> whose id is
  not read.
\<close>

definition removeFromCart :: "string response \<Rightarrow> string \<Rightarrow> App \<Rightarrow> App" where
  "removeFromCart reply id' st =
     (case reply of
        Inl error \<Rightarrow> st
      | Inr _ \<Rightarrow>
          toast ''Removed from cart'' None
            (st\<lparr>items := filter (\<lambda>item. CartItem.id item \<noteq> id') (items st)\<rparr>))"

definition updateQuantity :: "string response \<Rightarrow> string \<Rightarrow> int \<Rightarrow> App \<Rightarrow> App" where
  "updateQuantity reply id' quantity' st =
     (if quantity' \<le> 0 then removeFromCart reply id' st
      else (case reply of
              Inl error \<Rightarrow> st
            | Inr _ \<Rightarrow>
                st\<lparr>items :=
                     map (\<lambda>item. if CartItem.id item = id'
                                  then item\<lparr>CartItem.quantity := quantity'\<rparr> else item)
                       (items st)\<rparr>))"

definition sameLine :: "CartItem \<Rightarrow> CartItem \<Rightarrow> bool" where
  "sameLine item i =
     (CartItem.product_id i = CartItem.product_id item \<and>
      CartItem.grind_type i = CartItem.grind_type item \<and>
      CartItem.bag_size i = CartItem.bag_size item)"

definition addToCart :: "string response \<Rightarrow> CartItem \<Rightarrow> App \<Rightarrow> App" where
  "addToCart reply item st =
     (case user st of
        None \<Rightarrow> toast ''Please sign in'' (Some ''destructive'') st
      | Some uid \<Rightarrow>
          (case find (sameLine item) (items st) of
             Some existingItem \<Rightarrow>
               updateQuantity reply (CartItem.id existingItem)
                 (CartItem.quantity existingItem + CartItem.quantity item) st
           | None \<Rightarrow>
               (case reply of
                  Inl error \<Rightarrow> toast ''Error'' (Some ''destructive'') st
                | Inr new_id \<Rightarrow>
                    toast ''Added to cart'' None
                      (st\<lparr>items := items st @ [item\<lparr>CartItem.id := new_id\<rparr>]\<rparr>))))"

definition clearCart :: "string response \<Rightarrow> App \<Rightarrow> App" where
  "clearCart reply st =
     (case user st of
        None \<Rightarrow> st
      | Some uid \<Rightarrow> (case reply of Inl error \<Rightarrow> st | Inr _ \<Rightarrow> st\<lparr>items := []\<rparr>))"

text \<open>\<open>items.reduce((sum, item) => ..., 0)\<close>, evaluated at every render. The sums
  and products are those of exact numbers: they are the code's wherever every product and
  partial sum is a number a double holds exactly (whole prices and totals below \<open>2^53\<close>,
  as in every state the theorems below are instantiated on); the rounding of doubles at
  other prices is not modelled, and nothing below is stated about it.\<close>

definition totalItems :: "App \<Rightarrow> int" where
  "totalItems st = foldl (\<lambda>sum item. sum + CartItem.quantity item) 0 (items st)"

definition totalPrice :: "App \<Rightarrow> real" where
  "totalPrice st =
     foldl (\<lambda>sum item. sum + CartItem.price item * of_int (CartItem.quantity item)) 0 (items st)"

section \<open>Checkout orchestrator (Checkout.tsx, useRazorpay)\<close>

text \<open>\<open>\d\<close> is the class \<open>[0-9]\<close>; \<open>/^\d{n}$/.test(s)\<close> consumes exactly \<open>n\<close> digits
  from the start of \<open>s\<close> and then requires the end of the input.\<close>

definition isDigit :: "char \<Rightarrow> bool" where
  "isDigit c = (48 \<le> (of_char c :: nat) \<and> (of_char c :: nat) \<le> 57)"

fun testDigits :: "nat \<Rightarrow> string \<Rightarrow> bool" where
  "testDigits 0 s = (s = [])"
| "testDigits (Suc n) [] = False"
| "testDigits (Suc n) (c # cs) = (isDigit c \<and> testDigits n cs)"

definition validateShipping :: "App \<Rightarrow> bool \<times> App" where
  "validateShipping st =
     (let info = shippingInfo st in
      if ShippingInfo.name info = [] \<or> ShippingInfo.email info = [] \<or>
         ShippingInfo.phone info = [] \<or> ShippingInfo.address info = [] \<or>
         ShippingInfo.city info = [] \<or> ShippingInfo.state info = [] \<or>
         ShippingInfo.pincode info = []
      then (False, toast ''Missing Information'' (Some ''destructive'') st)
      else if \<not> testDigits 6 (ShippingInfo.pincode info)
      then (False, toast ''Invalid Pincode'' (Some ''destructive'') st)
      else if \<not> testDigits 10 (ShippingInfo.phone info)
      then (False, toast ''Invalid Phone'' (Some ''destructive'') st)
      else (True, st))"

definition handleNextStep :: "App \<Rightarrow> App" where
  "handleNextStep st =
     (if currentStep st = 1
      then (case validateShipping st of
              (False, st') \<Rightarrow> st'
            | (True, st') \<Rightarrow> st'\<lparr>currentStep := min (currentStep st' + 1) 3\<rparr>)
      else st\<lparr>currentStep := min (currentStep st + 1) 3\<rparr>)"

text \<open>\<open>Math.round\<close> rounds to the nearest integer, a half upwards.\<close>

definition Math_round :: "real \<Rightarrow> int" where
  "Math_round x = \<lfloor>x + 1 / 2\<rfloor>"

text \<open>What the payment SDK does once it has been handed the options: it calls the
  success handler, the user dismisses the modal, it reports \<open>payment.failed\<close>, or
  constructing or opening it throws (with the message of the error rejected).
  \<open>gatewayCalls\<close> records every options object given to \<open>new window.Razorpay\<close>.\<close>

datatype GatewayOutcome =
    Paid RazorpayResponse
  | Dismissed
  | PaymentFailed
  | Threw string

definition keyNotConfigured :: string where
  "keyNotConfigured =
     ''Razorpay Key ID not configured. Please set VITE_RAZORPAY_KEY_ID in your environment.''"

definition openPayment ::
  "bool \<Rightarrow> string option \<Rightarrow> GatewayOutcome \<Rightarrow> PaymentOptions \<Rightarrow> App
     \<Rightarrow> (string + RazorpayResponse) \<times> App" where
  "openPayment isLoaded razorpayKeyId outcome options st =
     (if \<not> isLoaded
      then (Inl ''Razorpay SDK not loaded. Please check your internet connection.'', st)
      else (case razorpayKeyId of
              None \<Rightarrow> (Inl keyNotConfigured, st)
            | Some k \<Rightarrow>
                if k = [] then (Inl keyNotConfigured, st)
                else
                  (let razorpayOptions =
                         \<lparr>RazorpayOptions.key = k,
                          amount = PaymentOptions.amount options,
                          currency = (case PaymentOptions.currency options of
                                        None \<Rightarrow> ''INR''
                                      | Some c \<Rightarrow> if c = [] then ''INR'' else c),
                          name = PaymentOptions.name options,
                          description = PaymentOptions.description options,
                          image = ''/favicon.ico'',
                          order_id = PaymentOptions.orderId options,
                          prefill_name = PaymentOptions.prefill_name options,
                          prefill_email = PaymentOptions.prefill_email options,
                          prefill_contact = PaymentOptions.prefill_contact options,
                          notes_order_id = PaymentOptions.notes_order_id options,
                          theme_color = ''#8B4513''\<rparr>;
                       st' = st\<lparr>gatewayCalls := gatewayCalls st @ [razorpayOptions]\<rparr>
                   in (case outcome of
                         Paid response \<Rightarrow> (Inr response, st')
                       | Dismissed \<Rightarrow> (Inl ''Payment cancelled by user'', st')
                       | PaymentFailed \<Rightarrow> (Inl ''Payment failed. Please try again.'', st')
                       | Threw err \<Rightarrow> (Inl err, st')))))"

text \<open>The replies \<open>handlePlaceOrder\<close> gets, in the order it asks for them. The data of
  \<open>order_insert\<close> is the id the store gave the new order.\<close>

record PlaceOrderEnv =
  order_insert :: "string response"
  items_insert :: "string response"
  razorpay_loaded :: bool
  razorpay_key :: "string option"
  gateway :: GatewayOutcome
  payment_reply :: "string response"
  clear_cart :: "string response"

definition updateOrder ::
  "string response \<Rightarrow> string \<Rightarrow> (Order \<Rightarrow> Order) \<Rightarrow> App \<Rightarrow> App" where
  "updateOrder reply id' f st =
     (case reply of
        Inl error \<Rightarrow> st
      | Inr _ \<Rightarrow>
          st\<lparr>db := (db st)\<lparr>orders :=
                 map (\<lambda>row. if Order.id row = id' then f row else row) (orders (db st))\<rparr>\<rparr>)"

definition navigate :: "string \<Rightarrow> App \<Rightarrow> App" where
  "navigate path st = st\<lparr>location := path\<rparr>"

definition orderFailed :: "App \<Rightarrow> App" where
  "orderFailed st = (toast ''Order Failed'' (Some ''destructive'') st)\<lparr>loading := False\<rparr>"

definition newOrder :: "string \<Rightarrow> string \<Rightarrow> App \<Rightarrow> Order" where
  "newOrder oid uid st =
     \<lparr>Order.id = oid,
      user_id = uid,
      status = ''new'',
      total_amount = totalPrice st,
      shipping_name = ShippingInfo.name (shippingInfo st),
      shipping_email = ShippingInfo.email (shippingInfo st),
      shipping_phone = ShippingInfo.phone (shippingInfo st),
      shipping_address = ShippingInfo.address (shippingInfo st),
      shipping_city = ShippingInfo.city (shippingInfo st),
      shipping_state = ShippingInfo.state (shippingInfo st),
      shipping_pincode = ShippingInfo.pincode (shippingInfo st),
      payment_status = ''pending'',
      payment_id = None\<rparr>"

definition orderItemOf :: "Order \<Rightarrow> CartItem \<Rightarrow> OrderItem" where
  "orderItemOf order item =
     \<lparr>OrderItem.order_id = Order.id order,
      product_name = CartItem.product_name item,
      grind_type = CartItem.grind_type item,
      bag_size = CartItem.bag_size item,
      quantity = CartItem.quantity item,
      unit_price = CartItem.price item\<rparr>"

definition paymentOptions :: "Order \<Rightarrow> App \<Rightarrow> PaymentOptions" where
  "paymentOptions order st =
     \<lparr>PaymentOptions.amount = real_of_int (Math_round (totalPrice st * 100)) / 1000,
      currency = None,
      name = ''Tiny Tiger Coffee'',
      description = Some (''Order #'' @ take 8 (Order.id order)),
      orderId = None,
      prefill_name = Some (ShippingInfo.name (shippingInfo st)),
      prefill_email = Some (ShippingInfo.email (shippingInfo st)),
      prefill_contact = Some (ShippingInfo.phone (shippingInfo st)),
      notes_order_id = Some (Order.id order)\<rparr>"

definition handlePlaceOrder :: "PlaceOrderEnv \<Rightarrow> App \<Rightarrow> App" where
  "handlePlaceOrder env st =
     (case user st of
        None \<Rightarrow> st
      | Some uid \<Rightarrow>
          (case order_insert env of
             Inl orderError \<Rightarrow> orderFailed st
           | Inr oid \<Rightarrow>
               (let order = newOrder oid uid st;
                    st1 = st\<lparr>db := (db st)\<lparr>orders := orders (db st) @ [order]\<rparr>\<rparr>
                in (case items_insert env of
                      Inl itemsError \<Rightarrow> orderFailed st1
                    | Inr _ \<Rightarrow>
                        (let orderItems = map (orderItemOf order) (items st);
                             st2 = st1\<lparr>db := (db st1)\<lparr>order_items :=
                                      order_items (db st1) @ orderItems\<rparr>\<rparr>
                         in if paymentMethod st = ''razorpay''
                            then
                              (if \<not> razorpay_loaded env
                               then (toast ''Payment Gateway Error'' (Some ''destructive'') st2)
                                      \<lparr>loading := False\<rparr>
                               else
                                 (case openPayment (razorpay_loaded env) (razorpay_key env)
                                         (gateway env) (paymentOptions order st) st2 of
                                    (Inr response, st3) \<Rightarrow>
                                      (navigate ''/profile''
                                        (toast ''Payment Successful!'' None
                                          (clearCart (clear_cart env)
                                            (updateOrder (payment_reply env) (Order.id order)
                                               (\<lambda>row. row\<lparr>payment_status := ''success'',
                                                       payment_id :=
                                                         Some (razorpay_payment_id response)\<rparr>)
                                               st3))))\<lparr>loading := False\<rparr>
                                  | (Inl paymentError, st3) \<Rightarrow>
                                      (toast ''Payment Cancelled'' (Some ''destructive'')
                                        (updateOrder (payment_reply env) (Order.id order)
                                           (\<lambda>row. row\<lparr>payment_status := ''failed''\<rparr>) st3))
                                        \<lparr>loading := False\<rparr>))
                            else
                              (navigate ''/profile''
                                (toast ''Order Placed Successfully!'' None
                                  (clearCart (clear_cart env)
                                    (updateOrder (payment_reply env) (Order.id order)
                                       (\<lambda>row. row\<lparr>payment_status := ''pending''\<rparr>) st2))))
                                \<lparr>loading := False\<rparr>)))))"

section \<open>Admin orders and the inventory decrement routine (admin/Orders.tsx)\<close>

text \<open>The replies one pass of the loop over the order's items gets.\<close>

record ItemReplies =
  products_select :: "string response"
  variants_select :: "string response"
  stock_reply :: "string response"

text \<open>The three queries of one pass: the product by name, the variant by product, grind
  and size, each limited to one row, and the write-back of the new stock count.\<close>

definition selectProducts :: "string \<Rightarrow> DB \<Rightarrow> Product list" where
  "selectProducts n d = take 1 (filter (\<lambda>p. Product.name p = n) (products d))"

definition selectVariants :: "string \<Rightarrow> string \<Rightarrow> string \<Rightarrow> DB \<Rightarrow> Variant list" where
  "selectVariants productId g s d =
     take 1 (filter (\<lambda>v. Variant.product_id v = productId \<and>
                          Variant.grind_type v = g \<and> Variant.size v = s)
               (variants d))"

definition updateStock :: "string \<Rightarrow> int \<Rightarrow> DB \<Rightarrow> DB" where
  "updateStock id' n d =
     d\<lparr>variants :=
         map (\<lambda>v. if Variant.id v = id' then v\<lparr>stock_count := n\<rparr> else v) (variants d)\<rparr>"

definition decrementItem :: "ItemReplies \<Rightarrow> OrderItem \<Rightarrow> DB \<Rightarrow> DB" where
  "decrementItem replies item d =
     (case products_select replies of
        Inl error \<Rightarrow> d
      | Inr _ \<Rightarrow>
          (case selectProducts (OrderItem.product_name item) d of
             [] \<Rightarrow> d
           | product' # _ \<Rightarrow>
               (let productId = Product.id product' in
                case variants_select replies of
                  Inl error \<Rightarrow> d
                | Inr _ \<Rightarrow>
                    (case selectVariants productId (OrderItem.grind_type item)
                            (OrderItem.bag_size item) d of
                       [] \<Rightarrow> d
                     | variant' # _ \<Rightarrow>
                         (let newStockCount =
                                max 0 (Variant.stock_count variant' - OrderItem.quantity item)
                          in case stock_reply replies of
                               Inl updateError \<Rightarrow> d
                             | Inr _ \<Rightarrow> updateStock (Variant.id variant') newStockCount d)))))"

text \<open>\<open>for (const item of items)\<close>; \<open>k\<close> counts the passes, to pick each pass's replies.\<close>

fun decrementItems :: "(nat \<Rightarrow> ItemReplies) \<Rightarrow> nat \<Rightarrow> OrderItem list \<Rightarrow> DB \<Rightarrow> DB" where
  "decrementItems replies k [] d = d"
| "decrementItems replies k (item # rest) d =
     decrementItems replies (Suc k) rest (decrementItem (replies k) item d)"

definition selectOrderItems :: "string \<Rightarrow> DB \<Rightarrow> OrderItem list" where
  "selectOrderItems oid d = filter (\<lambda>i. OrderItem.order_id i = oid) (order_items d)"

definition decrementStockForOrder ::
  "string response \<Rightarrow> (nat \<Rightarrow> ItemReplies) \<Rightarrow> string \<Rightarrow> DB \<Rightarrow> DB" where
  "decrementStockForOrder items_select replies orderId' d =
     (case items_select of
        Inl itemsError \<Rightarrow> d
      | Inr _ \<Rightarrow> decrementItems replies 0 (selectOrderItems orderId' d) d)"

record StatusEnv =
  status_reply :: "string response"
  items_select :: "string response"
  item_replies :: "nat \<Rightarrow> ItemReplies"
  orders_select :: "string response"

definition shouldDecrementStock :: "string option \<Rightarrow> string \<Rightarrow> bool" where
  "shouldDecrementStock previousStatus newStatus =
     ((previousStatus = Some ''new'' \<or> previousStatus = Some ''processing'') \<and>
      (newStatus = ''shipped'' \<or> newStatus = ''completed''))"

text \<open>\<open>fetchOrders\<close> reads the orders newest first. The table is kept in insertion order,
  which is the order of \<open>created_at\<close>, so the reply lists it reversed.
  \<open>handleStatusChange\<close> starts it without awaiting it; its result is in
  \<open>adminOrders\<close> by the time the admin acts again.\<close>

definition fetchOrders :: "string response \<Rightarrow> App \<Rightarrow> App" where
  "fetchOrders reply st =
     (case reply of
        Inl error \<Rightarrow> st
      | Inr _ \<Rightarrow> st\<lparr>adminOrders := rev (orders (db st))\<rparr>)"

definition handleStatusChange :: "StatusEnv \<Rightarrow> string \<Rightarrow> string \<Rightarrow> App \<Rightarrow> App" where
  "handleStatusChange env orderId' newStatus st =
     (let currentOrder = find (\<lambda>row. Order.id row = orderId') (adminOrders st);
          previousStatus = map_option Order.status currentOrder;
          decrement = shouldDecrementStock previousStatus newStatus
      in case status_reply env of
           Inl error \<Rightarrow> toast ''Error'' (Some ''destructive'') st
         | Inr _ \<Rightarrow>
             (let st1 = updateOrder (status_reply env) orderId'
                          (\<lambda>row. row\<lparr>status := newStatus\<rparr>) st;
                  st2 = (if decrement
                         then st1\<lparr>db := decrementStockForOrder (items_select env)
                                          (item_replies env) orderId' (db st1)\<rparr>
                         else st1);
                  st3 = toast ''Status Updated'' None st2;
                  st4 = fetchOrders (orders_select env) st3
              in (case selectedOrder st4 of
                    None \<Rightarrow> st4
                  | Some prev \<Rightarrow>
                      if Order.id prev = orderId'
                      then st4\<lparr>selectedOrder := Some (prev\<lparr>status := newStatus\<rparr>)\<rparr>
                      else st4)))"

section \<open>Notions the properties are stated with\<close>

text \<open>The variant an order item resolves to: the result of the routine's two lookups.\<close>

definition resolveVariant :: "OrderItem \<Rightarrow> DB \<Rightarrow> Variant option" where
  "resolveVariant item d =
     (case selectProducts (OrderItem.product_name item) d of
        [] \<Rightarrow> None
      | p # _ \<Rightarrow>
          (case selectVariants (Product.id p) (OrderItem.grind_type item)
                  (OrderItem.bag_size item) d of
             [] \<Rightarrow> None
           | v # _ \<Rightarrow> Some v))"

text \<open>The quantities, in order, of the items that resolve to the variant with a given id,
  and a stock count reduced by each of a list of quantities in turn, every step clamped
  at zero.\<close>

definition quantitiesFor :: "string \<Rightarrow> OrderItem list \<Rightarrow> DB \<Rightarrow> int list" where
  "quantitiesFor vid its d =
     map OrderItem.quantity
       (filter (\<lambda>item. map_option Variant.id (resolveVariant item d) = Some vid) its)"

definition reduceStock :: "int list \<Rightarrow> int \<Rightarrow> int" where
  "reduceStock qs s = foldl (\<lambda>s q. max 0 (s - q)) s qs"

text \<open>A pass all of whose remote calls succeed.\<close>

definition succeeded :: "ItemReplies \<Rightarrow> bool" where
  "succeeded replies =
     (\<not> isl (products_select replies) \<and> \<not> isl (variants_select replies) \<and>
      \<not> isl (stock_reply replies))"

text \<open>The admin moving one order new \<rightarrow> shipped \<rightarrow> processing \<rightarrow> shipped.\<close>

definition toggleStatus :: "StatusEnv \<Rightarrow> string \<Rightarrow> App \<Rightarrow> App" where
  "toggleStatus env oid st =
     handleStatusChange env oid ''shipped''
       (handleStatusChange env oid ''processing''
         (handleStatusChange env oid ''shipped'' st))"

text \<open>The digits, as the specification names them.\<close>

definition digits :: "char set" where
  "digits = set ''0123456789''"

section \<open>Sample data\<close>

text \<open>Concrete states on which the theorems below are instantiated.\<close>

definition itemA :: CartItem where
  "itemA = \<lparr>CartItem.id = ''c1'', product_id = ''p1'', product_name = ''Monsoon Malabar'',
     product_image = ''/a.png'', price = 450, quantity = 2, grind_type = ''whole_bean'',
     bag_size = ''250g''\<rparr>"

definition itemB :: CartItem where
  "itemB = \<lparr>CartItem.id = ''c2'', product_id = ''p2'', product_name = ''Mysore Nuggets'',
     product_image = ''/b.png'', price = 600, quantity = 1, grind_type = ''fine'',
     bag_size = ''500g''\<rparr>"

definition emptyDB :: DB where
  "emptyDB = \<lparr>orders = [], order_items = [], products = [], variants = []\<rparr>"

definition blankShipping :: ShippingInfo where
  "blankShipping = \<lparr>ShippingInfo.name = [], email = [], phone = [], address = [], city = [], state = [], pincode = []\<rparr>"

definition guest :: App where
  "guest = \<lparr>user = None, items = [], toasts = [], currentStep = 1, loading = False,
     paymentMethod = ''razorpay'', shippingInfo = blankShipping, location = ''/'',
     db = emptyDB, adminOrders = [], selectedOrder = None, gatewayCalls = []\<rparr>"

definition shopper :: App where
  "shopper = guest\<lparr>user := Some ''u1'', items := [itemA, itemB]\<rparr>"

definition goodShipping :: ShippingInfo where
  "goodShipping = \<lparr>ShippingInfo.name = ''Asha Rao'', email = ''asha@example.com'',
     phone = ''9876543210'', address = ''12 Hill Road'', city = ''Mumbai'',
     state = ''Maharashtra'', pincode = ''400001''\<rparr>"

definition codShopper :: App where
  "codShopper = shopper\<lparr>paymentMethod := ''cod'', shippingInfo := goodShipping\<rparr>"

definition cardShopper :: App where
  "cardShopper = shopper\<lparr>shippingInfo := goodShipping\<rparr>"

definition placeEnv :: PlaceOrderEnv where
  "placeEnv = \<lparr>order_insert = Inr ''0f8fad5b-d9cb'', items_insert = Inr [],
     razorpay_loaded = False, razorpay_key = None, gateway = Dismissed,
     payment_reply = Inr [], clear_cart = Inr []\<rparr>"

definition payEnv :: PlaceOrderEnv where
  "payEnv = placeEnv\<lparr>razorpay_loaded := True, razorpay_key := Some ''rzp_test_1'',
     gateway := Paid \<lparr>razorpay_payment_id = ''pay_1''\<rparr>\<rparr>"

definition order1 :: Order where
  "order1 = \<lparr>Order.id = ''o1'', user_id = ''u1'', status = ''new'', total_amount = 2250,
     shipping_name = ''Asha Rao'', shipping_email = ''asha@example.com'',
     shipping_phone = ''9876543210'', shipping_address = ''12 Hill Road'',
     shipping_city = ''Mumbai'', shipping_state = ''Maharashtra'',
     shipping_pincode = ''400001'', payment_status = ''pending'', payment_id = None\<rparr>"

definition line1 :: OrderItem where
  "line1 = \<lparr>OrderItem.order_id = ''o1'', product_name = ''Monsoon Malabar'',
     grind_type = ''whole_bean'', bag_size = ''250g'', quantity = 5, unit_price = 450\<rparr>"

definition line2 :: OrderItem where
  "line2 = \<lparr>OrderItem.order_id = ''o1'', product_name = ''Mysore Nuggets'',
     grind_type = ''fine'', bag_size = ''500g'', quantity = 3, unit_price = 600\<rparr>"

definition variant1 :: Variant where
  "variant1 = \<lparr>Variant.id = ''v1'', product_id = ''p1'', grind_type = ''whole_bean'',
     size = ''250g'', stock_count = 2\<rparr>"

definition variant2 :: Variant where
  "variant2 = \<lparr>Variant.id = ''v2'', product_id = ''p2'', grind_type = ''fine'',
     size = ''500g'', stock_count = 10\<rparr>"

definition shopDB :: DB where
  "shopDB = \<lparr>orders = [order1], order_items = [line1, line2],
     products = [\<lparr>Product.id = ''p1'', name = ''Monsoon Malabar''\<rparr>,
                 \<lparr>Product.id = ''p2'', name = ''Mysore Nuggets''\<rparr>],
     variants = [variant1, variant2]\<rparr>"

definition okReplies :: ItemReplies where
  "okReplies = \<lparr>products_select = Inr [], variants_select = Inr [], stock_reply = Inr []\<rparr>"

definition adminEnv :: StatusEnv where
  "adminEnv = \<lparr>status_reply = Inr [], items_select = Inr [],
     item_replies = (\<lambda>k. okReplies), orders_select = Inr []\<rparr>"

definition admin :: App where
  "admin = guest\<lparr>user := Some ''a1'', db := shopDB, adminOrders := [order1]\<rparr>"

section \<open>Cart aggregator: properties\<close>

lemma shopper_items: "items shopper = [itemA, itemB]" "user shopper = Some ''u1''" "toasts shopper = []"
  by (simp_all add: shopper_def guest_def)

lemma overwritten:
  assumes "item \<in> set (map (\<lambda>i. if CartItem.id i = id' then i\<lparr>CartItem.quantity := q\<rparr> else i) xs)"
    and "CartItem.id item = id'"
  shows "CartItem.quantity item = q"
proof -
  from assms(1) obtain x where x: "item = (if CartItem.id x = id' then x\<lparr>CartItem.quantity := q\<rparr> else x)"
    unfolding set_map by blast
  show ?thesis
  proof (cases "CartItem.id x = id'")
    case True
    with x show ?thesis by simp
  next
    case False
    with x assms(2) show ?thesis by simp
  qed
qed

lemma updateQuantity_nonpositive:
  "quantity' \<le> 0 \<Longrightarrow> updateQuantity reply id' quantity' st = removeFromCart reply id' st"
  by (simp add: updateQuantity_def)

lemma removeFromCart_items:
  "items (removeFromCart (Inr r) id' st) = filter (\<lambda>item. CartItem.id item \<noteq> id') (items st)"
  by (simp add: removeFromCart_def toast_def)

lemma updateQuantity_positive:
  "0 < quantity' \<Longrightarrow>
   items (updateQuantity (Inr r) id' quantity' st) =
     map (\<lambda>item. if CartItem.id item = id' then item\<lparr>CartItem.quantity := quantity'\<rparr> else item)
       (items st)"
  by (simp add: updateQuantity_def)

text \<open>
  C7. When the remote call succeeds, \<open>updateQuantity id q\<close> with \<open>q \<le> 0\<close> (so for
  \<open>q = 0\<close> and \<open>q = -1\<close>) removes every line with that id from the cart, and with
  \<open>q > 0\<close> overwrites the quantity of the line with that id by \<open>q\<close>, leaving the other
  lines as they were.
\<close>
theorem updateQuantity_removes_or_overwrites:
  "(quantity' \<le> 0 \<longrightarrow>
      items (updateQuantity (Inr r) id' quantity' st) =
        filter (\<lambda>item. CartItem.id item \<noteq> id') (items st) \<and>
      id' \<notin> CartItem.id ` set (items (updateQuantity (Inr r) id' quantity' st))) \<and>
   (0 < quantity' \<longrightarrow>
      items (updateQuantity (Inr r) id' quantity' st) =
        map (\<lambda>item. if CartItem.id item = id' then item\<lparr>CartItem.quantity := quantity'\<rparr> else item)
          (items st) \<and>
      (\<forall>item \<in> set (items (updateQuantity (Inr r) id' quantity' st)).
         CartItem.id item = id' \<longrightarrow> CartItem.quantity item = quantity')) \<and>
   items (updateQuantity (Inr r) id' 0 st) = filter (\<lambda>item. CartItem.id item \<noteq> id') (items st) \<and>
   items (updateQuantity (Inr r) id' (- 1) st) = filter (\<lambda>item. CartItem.id item \<noteq> id') (items st)"
proof (intro conjI impI)
  assume le: "quantity' \<le> 0"
  show rm: "items (updateQuantity (Inr r) id' quantity' st) =
        filter (\<lambda>item. CartItem.id item \<noteq> id') (items st)"
    using le by (simp add: updateQuantity_nonpositive removeFromCart_items)
  show "id' \<notin> CartItem.id ` set (items (updateQuantity (Inr r) id' quantity' st))"
    unfolding rm by auto
next
  assume pos: "0 < quantity'"
  show ov: "items (updateQuantity (Inr r) id' quantity' st) =
        map (\<lambda>item. if CartItem.id item = id' then item\<lparr>CartItem.quantity := quantity'\<rparr> else item)
          (items st)"
    using pos by (rule updateQuantity_positive)
  show "\<forall>item \<in> set (items (updateQuantity (Inr r) id' quantity' st)).
         CartItem.id item = id' \<longrightarrow> CartItem.quantity item = quantity'"
    unfolding ov using overwritten by blast
next
  show "items (updateQuantity (Inr r) id' 0 st) = filter (\<lambda>item. CartItem.id item \<noteq> id') (items st)"
    by (simp add: updateQuantity_nonpositive removeFromCart_items)
next
  show "items (updateQuantity (Inr r) id' (- 1) st) = filter (\<lambda>item. CartItem.id item \<noteq> id') (items st)"
    by (simp add: updateQuantity_nonpositive removeFromCart_items)
qed

theorem updateQuantity_removes_or_overwrites_witness:
  "items (updateQuantity (Inr []) ''c1'' 0 shopper) = [itemB] \<and>
   items (updateQuantity (Inr []) ''c1'' (- 1) shopper) = [itemB] \<and>
   items (updateQuantity (Inr []) ''c1'' 7 shopper) = [itemA\<lparr>CartItem.quantity := 7\<rparr>, itemB]"
  using updateQuantity_removes_or_overwrites [of 0 "[]" "''c1''" shopper]
    updateQuantity_removes_or_overwrites [of 7 "[]" "''c1''" shopper]
  by (simp add: shopper_items itemA_def itemB_def)

lemma find_filter_hd:
  "find P xs = (case filter P xs of [] \<Rightarrow> None | x # _ \<Rightarrow> Some x)"
  by (induction xs) simp_all

lemma sameLine_quantity_update:
  "sameLine item (i\<lparr>CartItem.quantity := q\<rparr>) = sameLine item i"
  by (simp add: sameLine_def)

lemma filter_sameLine_overwrite:
  "filter (sameLine item)
     (map (\<lambda>i. if CartItem.id i = k then i\<lparr>CartItem.quantity := q\<rparr> else i) xs) =
   map (\<lambda>i. if CartItem.id i = k then i\<lparr>CartItem.quantity := q\<rparr> else i)
     (filter (sameLine item) xs)"
  by (induction xs) (simp_all add: sameLine_quantity_update)

lemma addToCart_existing:
  assumes "user st = Some uid" and "find (sameLine item) (items st) = Some e"
    and "0 < CartItem.quantity e + CartItem.quantity item"
  shows "items (addToCart (Inr r) item st) =
     map (\<lambda>i. if CartItem.id i = CartItem.id e
               then i\<lparr>CartItem.quantity := CartItem.quantity e + CartItem.quantity item\<rparr>
               else i) (items st)"
  using assms by (simp add: addToCart_def updateQuantity_positive)

lemma addToCart_new:
  assumes "user st = Some uid" and "find (sameLine item) (items st) = None"
  shows "items (addToCart (Inr new_id) item st) = items st @ [item\<lparr>CartItem.id := new_id\<rparr>]"
    and "user (addToCart (Inr new_id) item st) = Some uid"
  using assms by (simp_all add: addToCart_def toast_def)

lemma addToCart_merge_cases:
  assumes "user st = Some uid"
  shows
    "(find (sameLine item) (items st) = Some e \<and>
      0 < CartItem.quantity e + CartItem.quantity item \<longrightarrow>
        items (addToCart (Inr r) item st) =
          map (\<lambda>i. if CartItem.id i = CartItem.id e
                    then i\<lparr>CartItem.quantity := CartItem.quantity e + CartItem.quantity item\<rparr>
                    else i) (items st) \<and>
        length (items (addToCart (Inr r) item st)) = length (items st)) \<and>
     (filter (sameLine item) (items st) = [e] \<and>
      0 < CartItem.quantity e + CartItem.quantity item \<longrightarrow>
        filter (sameLine item) (items (addToCart (Inr r) item st)) =
          [e\<lparr>CartItem.quantity := CartItem.quantity e + CartItem.quantity item\<rparr>]) \<and>
     (find (sameLine item) (items st) = None \<longrightarrow>
        items (addToCart (Inr r) item st) = items st @ [item\<lparr>CartItem.id := r\<rparr>])"
proof (intro conjI impI)
  assume a: "find (sameLine item) (items st) = Some e \<and>
      0 < CartItem.quantity e + CartItem.quantity item"
  show m: "items (addToCart (Inr r) item st) =
          map (\<lambda>i. if CartItem.id i = CartItem.id e
                    then i\<lparr>CartItem.quantity := CartItem.quantity e + CartItem.quantity item\<rparr>
                    else i) (items st)"
    using assms a by (simp add: addToCart_existing)
  show "length (items (addToCart (Inr r) item st)) = length (items st)"
    unfolding m by simp
next
  assume a: "filter (sameLine item) (items st) = [e] \<and>
      0 < CartItem.quantity e + CartItem.quantity item"
  then have f: "find (sameLine item) (items st) = Some e"
    by (simp add: find_filter_hd)
  have "items (addToCart (Inr r) item st) =
          map (\<lambda>i. if CartItem.id i = CartItem.id e
                    then i\<lparr>CartItem.quantity := CartItem.quantity e + CartItem.quantity item\<rparr>
                    else i) (items st)"
    using assms f a by (simp add: addToCart_existing)
  then show "filter (sameLine item) (items (addToCart (Inr r) item st)) =
          [e\<lparr>CartItem.quantity := CartItem.quantity e + CartItem.quantity item\<rparr>]"
    using a by (simp add: filter_sameLine_overwrite)
next
  assume "find (sameLine item) (items st) = None"
  with assms show "items (addToCart (Inr r) item st) = items st @ [item\<lparr>CartItem.id := r\<rparr>]"
    by (simp add: addToCart_new)
qed

lemma find_snoc_None:
  "find P xs = None \<Longrightarrow> find P (xs @ [x]) = (if P x then Some x else None)"
  by (induction xs) (simp_all split: if_splits)

lemma sameLine_cong: "sameLine item item2 \<Longrightarrow> sameLine item2 = sameLine item"
  by (rule ext) (auto simp: sameLine_def)

lemma overwrite_other_ids:
  "k \<notin> CartItem.id ` set xs \<Longrightarrow>
   map (\<lambda>i. if CartItem.id i = k then i\<lparr>CartItem.quantity := q\<rparr> else i) xs = xs"
  by (induction xs) auto

lemma addToCart_twice:
  assumes u: "user st = Some uid"
    and none: "find (sameLine item) (items st) = None"
    and same: "sameLine item item2"
    and fresh: "r \<notin> CartItem.id ` set (items st)"
    and pos: "0 < CartItem.quantity item + CartItem.quantity item2"
  shows "items (addToCart (Inr r2) item2 (addToCart (Inr r) item st)) =
     items st @ [item\<lparr>CartItem.id := r,
                      CartItem.quantity := CartItem.quantity item + CartItem.quantity item2\<rparr>]"
proof -
  let ?st1 = "addToCart (Inr r) item st"
  let ?x = "item\<lparr>CartItem.id := r\<rparr>"
  have i1: "items ?st1 = items st @ [?x]" and u1: "user ?st1 = Some uid"
    using u none by (simp_all add: addToCart_new)
  have sx: "sameLine item ?x" by (simp add: sameLine_def)
  have f: "find (sameLine item2) (items ?st1) = Some ?x"
    unfolding i1 sameLine_cong [OF same] using none sx by (simp add: find_snoc_None)
  have "items (addToCart (Inr r2) item2 ?st1) =
     map (\<lambda>i. if CartItem.id i = CartItem.id ?x
               then i\<lparr>CartItem.quantity := CartItem.quantity ?x + CartItem.quantity item2\<rparr>
               else i) (items ?st1)"
    using u1 f pos by (intro addToCart_existing) simp_all
  also have "\<dots> = items st @ [?x\<lparr>CartItem.quantity := CartItem.quantity item + CartItem.quantity item2\<rparr>]"
    unfolding i1 using fresh by (simp add: overwrite_other_ids)
  finally show ?thesis by simp
qed

lemma guest_fields: "user guest = None" "items guest = []" "toasts guest = []"
  by (simp_all add: guest_def)

text \<open>
  C9, as stated, fails: with no user signed in \<open>clearCart\<close> surfaces no notification,
  \<open>updateQuantity\<close> with a positive quantity surfaces none either, and
  \<open>removeFromCart\<close> (also reached from \<open>updateQuantity id 0\<close>) surfaces
  "Removed from cart" when its remote delete succeeds, not "Please sign in".
\<close>
theorem signed_out_mutations_counterexample:
  "user guest = None \<and>
   toasts (clearCart (Inr []) guest) = [] \<and>
   toasts (updateQuantity (Inr []) ''c1'' 3 guest) = [] \<and>
   toasts (removeFromCart (Inr []) ''c1'' guest) = [\<lparr>title = ''Removed from cart'', variant = None\<rparr>] \<and>
   toasts (updateQuantity (Inr []) ''c1'' 0 guest) = [\<lparr>title = ''Removed from cart'', variant = None\<rparr>]"
  by (simp add: clearCart_def updateQuantity_def removeFromCart_def toast_def guest_fields)

text \<open>
  C9, amended. With no user signed in, \<open>addToCart\<close> changes nothing but to surface a
  "Please sign in" notification, whatever the remote store would reply; \<open>clearCart\<close>
  leaves the state as it is and surfaces nothing; \<open>updateQuantity\<close> and
  \<open>removeFromCart\<close> do not look at the user at all, they act as for a signed-in user,
  and on the empty cart a signed-out session holds they leave the items empty.
\<close>
theorem signed_out_cart_mutations:
  assumes "user st = None"
  shows
    "addToCart reply item st = toast ''Please sign in'' (Some ''destructive'') st \<and>
     items (addToCart reply item st) = items st \<and>
     toasts (addToCart reply item st) =
       toasts st @ [\<lparr>title = ''Please sign in'', variant = Some ''destructive''\<rparr>] \<and>
     clearCart reply st = st \<and>
     updateQuantity reply id' quantity' st =
       (updateQuantity reply id' quantity' (st\<lparr>user := Some uid\<rparr>))\<lparr>user := None\<rparr> \<and>
     removeFromCart reply id' st =
       (removeFromCart reply id' (st\<lparr>user := Some uid\<rparr>))\<lparr>user := None\<rparr> \<and>
     (items st = [] \<longrightarrow>
        items (updateQuantity reply id' quantity' st) = [] \<and>
        items (removeFromCart reply id' st) = [])"
proof -
  have r: "removeFromCart reply id' st =
       (removeFromCart reply id' (st\<lparr>user := Some uid\<rparr>))\<lparr>user := None\<rparr>"
    using assms by (cases reply) (simp_all add: removeFromCart_def toast_def)
  have u: "updateQuantity reply id' quantity' st =
       (updateQuantity reply id' quantity' (st\<lparr>user := Some uid\<rparr>))\<lparr>user := None\<rparr>"
    using assms r by (cases reply) (simp_all add: updateQuantity_def)
  have e: "items st = [] \<longrightarrow>
        items (updateQuantity reply id' quantity' st) = [] \<and>
        items (removeFromCart reply id' st) = []"
    by (cases reply) (simp_all add: updateQuantity_def removeFromCart_def toast_def)
  have a: "addToCart reply item st = toast ''Please sign in'' (Some ''destructive'') st"
    using assms by (simp add: addToCart_def)
  have c: "clearCart reply st = st"
    using assms by (simp add: clearCart_def)
  show ?thesis
    using r u e c unfolding a by (simp add: toast_def)
qed

theorem signed_out_cart_mutations_witness:
  "user guest = None \<and>
   toasts (addToCart (Inr ''c9'') itemA guest) =
     [\<lparr>title = ''Please sign in'', variant = Some ''destructive''\<rparr>] \<and>
   items (addToCart (Inr ''c9'') itemA guest) = [] \<and>
   clearCart (Inr []) guest = guest \<and>
   items (removeFromCart (Inr []) ''c1'' guest) = []"
  using signed_out_cart_mutations [of guest "Inr ''c9''" itemA "''c1''" 1 "''u1''"]
    signed_out_cart_mutations [of guest "Inr []" itemA "''c1''" 1 "''u1''"]
  by (simp add: guest_fields toast_def removeFromCart_def)

text \<open>
  C5. For a signed-in user whose remote call succeeds: adding an item whose
  (product_id, grind_type, bag_size) is that of an existing line sets that line's quantity
  to the sum of the existing and the added quantity and adds no row, so a cart with one
  line of that tuple still has one, with the summed quantity; adding an item whose tuple
  is not in the cart appends a new row; and two additions of the same tuple to a cart
  without it leave one new line with the sum of both quantities. Quantities are at least
  1 in the data model; the theorem needs only that the sum is positive.
\<close>
theorem addToCart_merges_or_inserts:
  assumes "user st = Some uid"
  shows
    "(find (sameLine item) (items st) = Some e \<and>
      0 < CartItem.quantity e + CartItem.quantity item \<longrightarrow>
        items (addToCart (Inr r) item st) =
          map (\<lambda>i. if CartItem.id i = CartItem.id e
                    then i\<lparr>CartItem.quantity := CartItem.quantity e + CartItem.quantity item\<rparr>
                    else i) (items st) \<and>
        length (items (addToCart (Inr r) item st)) = length (items st)) \<and>
     (filter (sameLine item) (items st) = [e] \<and>
      0 < CartItem.quantity e + CartItem.quantity item \<longrightarrow>
        filter (sameLine item) (items (addToCart (Inr r) item st)) =
          [e\<lparr>CartItem.quantity := CartItem.quantity e + CartItem.quantity item\<rparr>]) \<and>
     (find (sameLine item) (items st) = None \<longrightarrow>
        items (addToCart (Inr r) item st) = items st @ [item\<lparr>CartItem.id := r\<rparr>]) \<and>
     (find (sameLine item) (items st) = None \<and> sameLine item item2 \<and>
      r \<notin> CartItem.id ` set (items st) \<and>
      0 < CartItem.quantity item + CartItem.quantity item2 \<longrightarrow>
        items (addToCart (Inr r2) item2 (addToCart (Inr r) item st)) =
          items st @ [item\<lparr>CartItem.id := r,
                           CartItem.quantity := CartItem.quantity item + CartItem.quantity item2\<rparr>])"
  using addToCart_merge_cases [OF assms, of item e r] addToCart_twice [OF assms, of item item2 r r2]
  by blast

lemma find_shopper: "find (sameLine itemA) [itemA, itemB] = Some itemA" "filter (sameLine itemA) [itemA, itemB] = [itemA]"
   "find (sameLine itemA) [itemB] = None"
  by (simp_all add: sameLine_def itemA_def itemB_def)

theorem addToCart_merges_or_inserts_witness:
  "user shopper = Some ''u1'' \<and>
   find (sameLine itemA) (items shopper) = Some itemA \<and>
   0 < CartItem.quantity itemA + CartItem.quantity itemA \<and>
   items (addToCart (Inr ''c3'') itemA shopper) = [itemA\<lparr>CartItem.quantity := 4\<rparr>, itemB] \<and>
   find (sameLine itemA) (items (shopper\<lparr>items := [itemB]\<rparr>)) = None \<and>
   items (addToCart (Inr ''c3'') itemA (shopper\<lparr>items := [itemB]\<rparr>)) =
     [itemB, itemA\<lparr>CartItem.id := ''c3''\<rparr>] \<and>
   items (addToCart (Inr ''c4'') itemA (addToCart (Inr ''c3'') itemA (shopper\<lparr>items := [itemB]\<rparr>))) =
     [itemB, itemA\<lparr>CartItem.id := ''c3'', CartItem.quantity := 4\<rparr>]"
  using addToCart_merges_or_inserts [of shopper "''u1''" itemA itemA "''c3''" itemA "''c4''"]
    addToCart_merges_or_inserts [of "shopper\<lparr>items := [itemB]\<rparr>" "''u1''" itemA itemA "''c3''" itemA "''c4''"]
  by (simp add: shopper_items find_shopper) (simp add: itemA_def itemB_def sameLine_def)

section \<open>Checkout: properties\<close>

lemma isDigit_digits: "isDigit c \<longleftrightarrow> c \<in> digits"
proof
  assume "isDigit c"
  then have "of_char c \<in> {48..57::nat}" by (simp add: isDigit_def)
  then have "of_char c \<in> (of_char ` digits :: nat set)"
    by (simp add: digits_def atLeastAtMost_def atLeast_def atMost_def) arith
  then show "c \<in> digits" by (auto simp: inj_image_mem_iff)
next
  assume "c \<in> digits"
  then show "isDigit c" by (auto simp: digits_def isDigit_def)
qed

lemma testDigits_iff: "testDigits n s \<longleftrightarrow> length s = n \<and> set s \<subseteq> digits"
proof (induction n s rule: testDigits.induct)
  case (1 s)
  show ?case by auto
next
  case (2 n)
  show ?case by simp
next
  case (3 n c cs)
  then show ?case by (auto simp: isDigit_digits)
qed

lemma validateShipping_true:
  "fst (validateShipping st) \<longleftrightarrow>
     ShippingInfo.name (shippingInfo st) \<noteq> [] \<and> ShippingInfo.email (shippingInfo st) \<noteq> [] \<and>
     ShippingInfo.phone (shippingInfo st) \<noteq> [] \<and> ShippingInfo.address (shippingInfo st) \<noteq> [] \<and>
     ShippingInfo.city (shippingInfo st) \<noteq> [] \<and> ShippingInfo.state (shippingInfo st) \<noteq> [] \<and>
     ShippingInfo.pincode (shippingInfo st) \<noteq> [] \<and>
     testDigits 6 (ShippingInfo.pincode (shippingInfo st)) \<and>
     testDigits 10 (ShippingInfo.phone (shippingInfo st))"
  by (simp add: validateShipping_def Let_def)

lemma validateShipping_step:
  "currentStep (snd (validateShipping st)) = currentStep st"
  by (simp add: validateShipping_def Let_def toast_def)

lemma handleNextStep_blocked:
  "currentStep st = 1 \<Longrightarrow> \<not> fst (validateShipping st) \<Longrightarrow> currentStep (handleNextStep st) = 1"
  using validateShipping_step [of st]
  by (cases "validateShipping st") (auto simp: handleNextStep_def) 

lemma handleNextStep_advances:
  "currentStep st = 1 \<Longrightarrow> fst (validateShipping st) \<Longrightarrow> currentStep (handleNextStep st) = 2"
  using validateShipping_step [of st]
  by (cases "validateShipping st") (auto simp: handleNextStep_def) 

lemma digit_examples:
  "\<not> testDigits 10 ''12345''" "\<not> testDigits 6 ''1234''"
  "testDigits 10 ''9876543210''" "testDigits 6 ''400001''"
  by (simp_all add: testDigits_iff digits_def)

text \<open>
  C8. Step-1 validation succeeds exactly when name, email, phone, address, city, state
  and pincode are all non-empty, the phone is exactly 10 digits and the pincode exactly 6
  digits. It rejects phone "12345" and pincode "1234", accepts phone "9876543210" with
  pincode "400001" (the other fields being filled), and when it fails
  \<open>handleNextStep\<close> leaves the wizard on step 1.
\<close>
theorem validateShipping_accepts_iff:
  "(fst (validateShipping st) \<longleftrightarrow>
      ShippingInfo.name (shippingInfo st) \<noteq> [] \<and> ShippingInfo.email (shippingInfo st) \<noteq> [] \<and>
      ShippingInfo.phone (shippingInfo st) \<noteq> [] \<and> ShippingInfo.address (shippingInfo st) \<noteq> [] \<and>
      ShippingInfo.city (shippingInfo st) \<noteq> [] \<and> ShippingInfo.state (shippingInfo st) \<noteq> [] \<and>
      ShippingInfo.pincode (shippingInfo st) \<noteq> [] \<and>
      length (ShippingInfo.phone (shippingInfo st)) = 10 \<and>
      set (ShippingInfo.phone (shippingInfo st)) \<subseteq> digits \<and>
      length (ShippingInfo.pincode (shippingInfo st)) = 6 \<and>
      set (ShippingInfo.pincode (shippingInfo st)) \<subseteq> digits) \<and>
   (ShippingInfo.phone (shippingInfo st) = ''12345'' \<longrightarrow> \<not> fst (validateShipping st)) \<and>
   (ShippingInfo.pincode (shippingInfo st) = ''1234'' \<longrightarrow> \<not> fst (validateShipping st)) \<and>
   (ShippingInfo.name (shippingInfo st) \<noteq> [] \<and> ShippingInfo.email (shippingInfo st) \<noteq> [] \<and>
    ShippingInfo.address (shippingInfo st) \<noteq> [] \<and> ShippingInfo.city (shippingInfo st) \<noteq> [] \<and>
    ShippingInfo.state (shippingInfo st) \<noteq> [] \<and>
    ShippingInfo.phone (shippingInfo st) = ''9876543210'' \<and>
    ShippingInfo.pincode (shippingInfo st) = ''400001'' \<longrightarrow> fst (validateShipping st)) \<and>
   (currentStep st = 1 \<and> \<not> fst (validateShipping st) \<longrightarrow>
      currentStep (handleNextStep st) = 1) \<and>
   (currentStep st = 1 \<and> fst (validateShipping st) \<longrightarrow>
      currentStep (handleNextStep st) = 2)"
proof (intro conjI impI)
  show "fst (validateShipping st) \<longleftrightarrow>
      ShippingInfo.name (shippingInfo st) \<noteq> [] \<and> ShippingInfo.email (shippingInfo st) \<noteq> [] \<and>
      ShippingInfo.phone (shippingInfo st) \<noteq> [] \<and> ShippingInfo.address (shippingInfo st) \<noteq> [] \<and>
      ShippingInfo.city (shippingInfo st) \<noteq> [] \<and> ShippingInfo.state (shippingInfo st) \<noteq> [] \<and>
      ShippingInfo.pincode (shippingInfo st) \<noteq> [] \<and>
      length (ShippingInfo.phone (shippingInfo st)) = 10 \<and>
      set (ShippingInfo.phone (shippingInfo st)) \<subseteq> digits \<and>
      length (ShippingInfo.pincode (shippingInfo st)) = 6 \<and>
      set (ShippingInfo.pincode (shippingInfo st)) \<subseteq> digits"
    unfolding validateShipping_true testDigits_iff by blast
next
  assume "ShippingInfo.phone (shippingInfo st) = ''12345''"
  then show "\<not> fst (validateShipping st)"
    by (simp add: validateShipping_true digit_examples)
next
  assume "ShippingInfo.pincode (shippingInfo st) = ''1234''"
  then show "\<not> fst (validateShipping st)"
    by (simp add: validateShipping_true digit_examples)
next
  assume "ShippingInfo.name (shippingInfo st) \<noteq> [] \<and> ShippingInfo.email (shippingInfo st) \<noteq> [] \<and>
    ShippingInfo.address (shippingInfo st) \<noteq> [] \<and> ShippingInfo.city (shippingInfo st) \<noteq> [] \<and>
    ShippingInfo.state (shippingInfo st) \<noteq> [] \<and>
    ShippingInfo.phone (shippingInfo st) = ''9876543210'' \<and>
    ShippingInfo.pincode (shippingInfo st) = ''400001''"
  then show "fst (validateShipping st)"
    by (simp add: validateShipping_true digit_examples)
next
  assume "currentStep st = 1 \<and> \<not> fst (validateShipping st)"
  then show "currentStep (handleNextStep st) = 1"
    by (simp add: handleNextStep_blocked)
next
  assume "currentStep st = 1 \<and> fst (validateShipping st)"
  then show "currentStep (handleNextStep st) = 2"
    by (simp add: handleNextStep_advances)
qed

lemma cardShopper_fields:
  "shippingInfo cardShopper = goodShipping" "currentStep cardShopper = 1"
  "user cardShopper = Some ''u1''" "items cardShopper = [itemA, itemB]"
  "paymentMethod cardShopper = ''razorpay''" "toasts cardShopper = []"
  "db cardShopper = emptyDB" "gatewayCalls cardShopper = []"
  by (simp_all add: cardShopper_def shopper_def guest_def)

theorem validateShipping_accepts_iff_witness:
  "fst (validateShipping cardShopper) \<and>
   currentStep (handleNextStep cardShopper) = 2 \<and>
   \<not> fst (validateShipping (cardShopper\<lparr>shippingInfo := goodShipping\<lparr>phone := ''12345''\<rparr>\<rparr>)) \<and>
   \<not> fst (validateShipping (cardShopper\<lparr>shippingInfo := goodShipping\<lparr>pincode := ''1234''\<rparr>\<rparr>)) \<and>
   currentStep (handleNextStep (cardShopper\<lparr>shippingInfo := goodShipping\<lparr>phone := ''12345''\<rparr>\<rparr>)) = 1"
proof -
  let ?badPhone = "cardShopper\<lparr>shippingInfo := goodShipping\<lparr>phone := ''12345''\<rparr>\<rparr>"
  let ?badPin = "cardShopper\<lparr>shippingInfo := goodShipping\<lparr>pincode := ''1234''\<rparr>\<rparr>"
  have ok: "fst (validateShipping cardShopper)"
    using validateShipping_accepts_iff [of cardShopper]
    by (simp add: cardShopper_fields goodShipping_def digits_def)
  have step: "currentStep (handleNextStep cardShopper) = 2"
    using validateShipping_accepts_iff [of cardShopper] ok
    by (simp add: cardShopper_fields)
  have p: "\<not> fst (validateShipping ?badPhone)"
    using validateShipping_accepts_iff [of ?badPhone] by simp
  have q: "\<not> fst (validateShipping ?badPin)"
    using validateShipping_accepts_iff [of ?badPin] by simp
  have blocked: "currentStep (handleNextStep ?badPhone) = 1"
    using validateShipping_accepts_iff [of ?badPhone] p
    by (simp add: cardShopper_fields)
  from ok step p q blocked show ?thesis by blast
qed

lemma map_orders_fresh:
  "k \<notin> Order.id ` set os \<Longrightarrow> map (\<lambda>row. if Order.id row = k then f row else row) os = os"
  by (induction os) auto

lemma newOrder_fields:
  "Order.id (newOrder oid uid st) = oid"
  "Order.status (newOrder oid uid st) = ''new''"
  "Order.payment_status (newOrder oid uid st) = ''pending''"
  "Order.total_amount (newOrder oid uid st) = totalPrice st"
  "(newOrder oid uid st)\<lparr>payment_status := ''pending''\<rparr> = newOrder oid uid st"
  by (simp_all add: newOrder_def)

lemma handlePlaceOrder_cod:
  assumes "user st = Some uid" and "paymentMethod st = ''cod''"
    and "order_insert env = Inr oid" and "items_insert env = Inr r1"
    and "clear_cart env = Inr r2"
    and "oid \<notin> Order.id ` set (orders (db st))"
  shows "handlePlaceOrder env st =
     st\<lparr>db := (db st)\<lparr>orders := orders (db st) @ [newOrder oid uid st],
                       order_items := order_items (db st) @
                          map (orderItemOf (newOrder oid uid st)) (items st)\<rparr>,
        items := [],
        toasts := toasts st @ [\<lparr>title = ''Order Placed Successfully!'', variant = None\<rparr>],
        location := ''/profile'',
        loading := False\<rparr>"
proof (cases "payment_reply env")
  case (Inl e)
  then show ?thesis using assms
    by (simp add: handlePlaceOrder_def Let_def updateOrder_def clearCart_def toast_def navigate_def)
next
  case (Inr r)
  then show ?thesis using assms
    by (simp add: handlePlaceOrder_def Let_def updateOrder_def clearCart_def toast_def navigate_def
        map_orders_fresh newOrder_fields)
qed

lemma orderItemOf_newOrder:
  "orderItemOf (newOrder oid uid st) =
     (\<lambda>item. \<lparr>OrderItem.order_id = oid,
               product_name = CartItem.product_name item,
               grind_type = CartItem.grind_type item,
               bag_size = CartItem.bag_size item,
               quantity = CartItem.quantity item,
               unit_price = CartItem.price item\<rparr>)"
  by (rule ext) (simp add: orderItemOf_def newOrder_fields)

text \<open>
  C4. Placing a cash-on-delivery order whose remote calls succeed appends an Order with
  payment_status "pending", status "new" and total_amount the cart's \<open>totalPrice\<close>,
  appends one OrderItem per cart line with the line's product_name, grind_type, bag_size,
  quantity and price (as unit_price), empties the cart and hands nothing to the payment
  gateway. The id the store gives the new order is not the id of an order it already
  holds (it is the table's primary key).
\<close>
theorem cash_on_delivery_places_order:
  assumes "user st = Some uid" and "paymentMethod st = ''cod''"
    and "order_insert env = Inr oid" and "items_insert env = Inr r1"
    and "clear_cart env = Inr r2"
    and "oid \<notin> Order.id ` set (orders (db st))"
  shows
    "orders (db (handlePlaceOrder env st)) = orders (db st) @ [newOrder oid uid st] \<and>
     Order.id (newOrder oid uid st) = oid \<and>
     Order.payment_status (newOrder oid uid st) = ''pending'' \<and>
     Order.status (newOrder oid uid st) = ''new'' \<and>
     Order.total_amount (newOrder oid uid st) = totalPrice st \<and>
     order_items (db (handlePlaceOrder env st)) =
       order_items (db st) @
       map (\<lambda>item. \<lparr>OrderItem.order_id = oid,
                      product_name = CartItem.product_name item,
                      grind_type = CartItem.grind_type item,
                      bag_size = CartItem.bag_size item,
                      quantity = CartItem.quantity item,
                      unit_price = CartItem.price item\<rparr>) (items st) \<and>
     items (handlePlaceOrder env st) = [] \<and>
     gatewayCalls (handlePlaceOrder env st) = gatewayCalls st"
  unfolding handlePlaceOrder_cod [OF assms]
  by (simp add: newOrder_fields orderItemOf_newOrder)

lemma codShopper_fields:
  "user codShopper = Some ''u1''" "paymentMethod codShopper = ''cod''"
  "items codShopper = [itemA, itemB]" "db codShopper = emptyDB"
  "shippingInfo codShopper = goodShipping" "gatewayCalls codShopper = []"
  by (simp_all add: codShopper_def shopper_def guest_def)

lemma placeEnv_fields:
  "order_insert placeEnv = Inr ''0f8fad5b-d9cb''" "items_insert placeEnv = Inr []"
  "clear_cart placeEnv = Inr []" "\<not> razorpay_loaded placeEnv" "payment_reply placeEnv = Inr []"
  by (simp_all add: placeEnv_def)

lemma totalPrice_1500: "totalPrice codShopper = 1500" "totalPrice cardShopper = 1500"
  by (simp_all add: totalPrice_def codShopper_fields cardShopper_fields itemA_def itemB_def)

theorem cash_on_delivery_places_order_witness:
  "user codShopper = Some ''u1'' \<and> paymentMethod codShopper = ''cod'' \<and>
   totalPrice codShopper = 1500 \<and>
   map Order.total_amount (orders (db (handlePlaceOrder placeEnv codShopper))) = [1500] \<and>
   map Order.payment_status (orders (db (handlePlaceOrder placeEnv codShopper))) = [''pending''] \<and>
   map Order.status (orders (db (handlePlaceOrder placeEnv codShopper))) = [''new''] \<and>
   map OrderItem.quantity (order_items (db (handlePlaceOrder placeEnv codShopper))) = [2, 1] \<and>
   items (handlePlaceOrder placeEnv codShopper) = [] \<and>
   gatewayCalls (handlePlaceOrder placeEnv codShopper) = []"
  using cash_on_delivery_places_order [of codShopper "''u1''" placeEnv "''0f8fad5b-d9cb''" "[]" "[]"]
  by (simp add: codShopper_fields placeEnv_fields totalPrice_1500 emptyDB_def newOrder_fields
      itemA_def itemB_def)

text \<open>
  C10. With the gateway method selected and the payment SDK not loaded, a
  \<open>handlePlaceOrder\<close> whose two inserts succeed returns with the new Order
  (payment_status "pending", status "new") and all its OrderItems in the tables, the cart
  as it was, nothing handed to the gateway, no navigation, and a "Payment Gateway Error"
  notification.
\<close>
theorem gateway_unavailable_leaves_order:
  assumes "user st = Some uid" and "paymentMethod st = ''razorpay''"
    and "order_insert env = Inr oid" and "items_insert env = Inr r1"
    and "\<not> razorpay_loaded env"
  shows
    "orders (db (handlePlaceOrder env st)) = orders (db st) @ [newOrder oid uid st] \<and>
     Order.id (newOrder oid uid st) = oid \<and>
     Order.payment_status (newOrder oid uid st) = ''pending'' \<and>
     Order.status (newOrder oid uid st) = ''new'' \<and>
     order_items (db (handlePlaceOrder env st)) =
       order_items (db st) @
       map (\<lambda>item. \<lparr>OrderItem.order_id = oid,
                      product_name = CartItem.product_name item,
                      grind_type = CartItem.grind_type item,
                      bag_size = CartItem.bag_size item,
                      quantity = CartItem.quantity item,
                      unit_price = CartItem.price item\<rparr>) (items st) \<and>
     items (handlePlaceOrder env st) = items st \<and>
     gatewayCalls (handlePlaceOrder env st) = gatewayCalls st \<and>
     location (handlePlaceOrder env st) = location st \<and>
     toasts (handlePlaceOrder env st) =
       toasts st @ [\<lparr>title = ''Payment Gateway Error'', variant = Some ''destructive''\<rparr>] \<and>
     \<not> loading (handlePlaceOrder env st)"
  using assms
  by (simp add: handlePlaceOrder_def Let_def toast_def newOrder_fields orderItemOf_newOrder)

theorem gateway_unavailable_leaves_order_witness:
  "user cardShopper = Some ''u1'' \<and> paymentMethod cardShopper = ''razorpay'' \<and>
   \<not> razorpay_loaded placeEnv \<and>
   map Order.id (orders (db (handlePlaceOrder placeEnv cardShopper))) = [''0f8fad5b-d9cb''] \<and>
   map Order.payment_status (orders (db (handlePlaceOrder placeEnv cardShopper))) = [''pending''] \<and>
   map OrderItem.quantity (order_items (db (handlePlaceOrder placeEnv cardShopper))) = [2, 1] \<and>
   items (handlePlaceOrder placeEnv cardShopper) = [itemA, itemB] \<and>
   gatewayCalls (handlePlaceOrder placeEnv cardShopper) = []"
  using gateway_unavailable_leaves_order [of cardShopper "''u1''" placeEnv "''0f8fad5b-d9cb''" "[]"]
  by (simp add: cardShopper_fields placeEnv_fields emptyDB_def newOrder_fields
      itemA_def itemB_def)

lemma payEnv_fields:
  "order_insert payEnv = Inr ''0f8fad5b-d9cb''" "items_insert payEnv = Inr []"
  "clear_cart payEnv = Inr []" "razorpay_loaded payEnv" "payment_reply payEnv = Inr []"
  "razorpay_key payEnv = Some ''rzp_test_1''"
  "gateway payEnv = Paid \<lparr>razorpay_payment_id = ''pay_1''\<rparr>"
  by (simp_all add: payEnv_def placeEnv_def)

lemma gateway_amount:
  assumes "user st = Some uid" and "paymentMethod st = ''razorpay''"
    and "order_insert env = Inr oid" and "items_insert env = Inr r1"
    and "razorpay_loaded env" and "razorpay_key env = Some k" and "k \<noteq> []"
  shows "map RazorpayOptions.amount (gatewayCalls (handlePlaceOrder env st)) =
     map RazorpayOptions.amount (gatewayCalls st) @
       [real_of_int (Math_round (totalPrice st * 100)) / 1000]"
proof (cases "gateway env")
  case (Paid response)
  then show ?thesis using assms
    by (cases "payment_reply env"; cases "clear_cart env")
       (simp_all add: handlePlaceOrder_def Let_def openPayment_def paymentOptions_def
        updateOrder_def clearCart_def toast_def navigate_def)
next
  case Dismissed
  then show ?thesis using assms
    by (cases "payment_reply env")
       (simp_all add: handlePlaceOrder_def Let_def openPayment_def paymentOptions_def
        updateOrder_def toast_def)
next
  case PaymentFailed
  then show ?thesis using assms
    by (cases "payment_reply env")
       (simp_all add: handlePlaceOrder_def Let_def openPayment_def paymentOptions_def
        updateOrder_def toast_def)
next
  case (Threw err)
  then show ?thesis using assms
    by (cases "payment_reply env")
       (simp_all add: handlePlaceOrder_def Let_def openPayment_def paymentOptions_def
        updateOrder_def toast_def)
qed

text \<open>
  C1 asks that the amount handed to the payment gateway be the total times 100 (paise),
  with no further division. The code divides the rounded product by 1000: for a cart
  total of 1500 rupees, where the claim gives 150000, the gateway is handed 150.
\<close>
theorem gateway_amount_at_1500:
  "totalPrice cardShopper = 1500 \<and>
   real_of_int (Math_round (totalPrice cardShopper * 100)) = 150000 \<and>
   map RazorpayOptions.amount (gatewayCalls (handlePlaceOrder payEnv cardShopper)) = [150]"
  using gateway_amount [of cardShopper "''u1''" payEnv "''0f8fad5b-d9cb''" "[]" "''rzp_test_1''"]
  by (simp add: cardShopper_fields payEnv_fields totalPrice_1500 Math_round_def)

section \<open>Inventory decrement: properties\<close>

lemma decrementItem_succeeded:
  "succeeded replies \<Longrightarrow>
   decrementItem replies item d =
     (case resolveVariant item d of
        None \<Rightarrow> d
      | Some v \<Rightarrow>
          updateStock (Variant.id v)
            (max 0 (Variant.stock_count v - OrderItem.quantity item)) d)"
  by (cases "products_select replies"; cases "variants_select replies";
      cases "stock_reply replies")
     (simp_all add: succeeded_def decrementItem_def resolveVariant_def Let_def
        split: list.splits)

lemma decrementItem_cases:
  "decrementItem replies item d = d \<or>
   (\<exists>v. resolveVariant item d = Some v \<and>
        decrementItem replies item d =
          updateStock (Variant.id v)
            (max 0 (Variant.stock_count v - OrderItem.quantity item)) d)"
  by (cases "products_select replies"; cases "variants_select replies";
      cases "stock_reply replies")
     (simp_all add: decrementItem_def resolveVariant_def Let_def split: list.splits)

lemma take1_cases: "take 1 xs = [] \<or> (\<exists>x. take 1 xs = [x] \<and> x \<in> set xs)"
  by (cases xs) simp_all

lemma selectProducts_cases:
  "selectProducts n d = [] \<or> (\<exists>p. selectProducts n d = [p] \<and> p \<in> set (products d))"
  unfolding selectProducts_def
  using take1_cases [of "filter (\<lambda>p. Product.name p = n) (products d)"] by auto

lemma selectVariants_cases:
  "selectVariants pid g s d = [] \<or>
   (\<exists>v. selectVariants pid g s d = [v] \<and> v \<in> set (variants d))"
  unfolding selectVariants_def
  using take1_cases [of "filter (\<lambda>v. Variant.product_id v = pid \<and>
                          Variant.grind_type v = g \<and> Variant.size v = s) (variants d)"]
  by auto

lemma resolveVariant_queries:
  "resolveVariant item d = Some v \<longleftrightarrow>
     (\<exists>p. selectProducts (OrderItem.product_name item) d = [p] \<and>
          selectVariants (Product.id p) (OrderItem.grind_type item)
            (OrderItem.bag_size item) d = [v])"
proof (cases "selectProducts (OrderItem.product_name item) d")
  case Nil
  then show ?thesis by (simp add: resolveVariant_def)
next
  case (Cons p ps)
  with selectProducts_cases [of "OrderItem.product_name item" d]
  have ps: "ps = []" by auto
  show ?thesis
  proof (cases "selectVariants (Product.id p) (OrderItem.grind_type item)
            (OrderItem.bag_size item) d")
    case Nil
    with Cons show ?thesis by (simp add: resolveVariant_def)
  next
    case (Cons w ws)
    with selectVariants_cases [of "Product.id p" "OrderItem.grind_type item"
        "OrderItem.bag_size item" d]
    have "ws = []" by auto
    with Cons \<open>selectProducts (OrderItem.product_name item) d = p # ps\<close> ps
    show ?thesis by (simp add: resolveVariant_def)
  qed
qed

lemma resolveVariant_mem:
  "resolveVariant item d = Some v \<Longrightarrow> v \<in> set (variants d)"
proof -
  assume "resolveVariant item d = Some v"
  then obtain p :: Product where q: "selectVariants (Product.id p) (OrderItem.grind_type item)
            (OrderItem.bag_size item) d = [v]"
    by (auto simp: resolveVariant_queries)
  with selectVariants_cases [of "Product.id p" "OrderItem.grind_type item"
        "OrderItem.bag_size item" d]
  show ?thesis by auto
qed

lemma stock_overwritten:
  assumes "r \<in> set (map (\<lambda>v. if Variant.id v = k then v\<lparr>stock_count := n\<rparr> else v) xs)"
    and "Variant.id r = k"
  shows "Variant.stock_count r = n"
proof -
  from assms(1) obtain x where x: "r = (if Variant.id x = k then x\<lparr>stock_count := n\<rparr> else x)"
    unfolding set_map by blast
  show ?thesis
  proof (cases "Variant.id x = k")
    case True
    with x show ?thesis by simp
  next
    case False
    with x assms(2) show ?thesis by simp
  qed
qed

lemma stock_overwritten_nonneg:
  assumes "r \<in> set (map (\<lambda>v. if Variant.id v = k then v\<lparr>stock_count := max 0 n\<rparr> else v) xs)"
    and "\<forall>v \<in> set xs. 0 \<le> Variant.stock_count v"
  shows "0 \<le> Variant.stock_count r"
proof -
  from assms(1) obtain x where x: "x \<in> set xs"
      "r = (if Variant.id x = k then x\<lparr>stock_count := max 0 n\<rparr> else x)"
    unfolding set_map by blast
  show ?thesis
  proof (cases "Variant.id x = k")
    case True
    with x show ?thesis by simp
  next
    case False
    with x assms(2) show ?thesis by simp
  qed
qed

lemma decrementItem_keeps_nonneg:
  assumes "\<forall>v \<in> set (variants d). 0 \<le> Variant.stock_count v"
  shows "\<forall>r \<in> set (variants (decrementItem replies item d)). 0 \<le> Variant.stock_count r"
proof -
  from decrementItem_cases [of replies item d]
  show ?thesis
  proof
    assume "decrementItem replies item d = d"
    with assms show ?thesis by simp
  next
    assume "\<exists>v. resolveVariant item d = Some v \<and>
        decrementItem replies item d =
          updateStock (Variant.id v)
            (max 0 (Variant.stock_count v - OrderItem.quantity item)) d"
    then obtain v :: Variant where e: "decrementItem replies item d =
          updateStock (Variant.id v)
            (max 0 (Variant.stock_count v - OrderItem.quantity item)) d" by blast
    have v: "variants (decrementItem replies item d) =
        map (\<lambda>r. if Variant.id r = Variant.id v
                  then r\<lparr>stock_count := max 0 (Variant.stock_count v - OrderItem.quantity item)\<rparr>
                  else r) (variants d)"
      unfolding e by (simp add: updateStock_def)
    show ?thesis
    proof
      fix r
      assume "r \<in> set (variants (decrementItem replies item d))"
      then show "0 \<le> Variant.stock_count r"
        unfolding v using assms by (rule stock_overwritten_nonneg)
    qed
  qed
qed

lemma decrementItem_writes_clamped:
  assumes "selectProducts (OrderItem.product_name item) d = [p]"
    and "selectVariants (Product.id p) (OrderItem.grind_type item) (OrderItem.bag_size item) d = [v]"
    and "succeeded replies"
  shows
    "variants (decrementItem replies item d) =
       map (\<lambda>r. if Variant.id r = Variant.id v
                 then r\<lparr>stock_count := max 0 (Variant.stock_count v - OrderItem.quantity item)\<rparr>
                 else r) (variants d) \<and>
     v \<in> set (variants d) \<and>
     (\<forall>r \<in> set (variants (decrementItem replies item d)).
        Variant.id r = Variant.id v \<longrightarrow>
          Variant.stock_count r = max 0 (Variant.stock_count v - OrderItem.quantity item) \<and>
          0 \<le> Variant.stock_count r) \<and>
     (Variant.stock_count v = 2 \<and> OrderItem.quantity item = 5 \<longrightarrow>
        (\<forall>r \<in> set (variants (decrementItem replies item d)).
           Variant.id r = Variant.id v \<longrightarrow> Variant.stock_count r = 0)) \<and>
     ((\<forall>r \<in> set (variants d). 0 \<le> Variant.stock_count r) \<longrightarrow>
        (\<forall>r \<in> set (variants (decrementItem replies item d)). 0 \<le> Variant.stock_count r))"
proof -
  have res: "resolveVariant item d = Some v"
    unfolding resolveVariant_queries using assms(1,2) by blast
  have m: "variants (decrementItem replies item d) =
       map (\<lambda>r. if Variant.id r = Variant.id v
                 then r\<lparr>stock_count := max 0 (Variant.stock_count v - OrderItem.quantity item)\<rparr>
                 else r) (variants d)"
    using assms(3) res by (simp add: decrementItem_succeeded updateStock_def)
  have pt: "Variant.stock_count r = max 0 (Variant.stock_count v - OrderItem.quantity item)"
    if "r \<in> set (variants (decrementItem replies item d))" and "Variant.id r = Variant.id v" for r
    using that unfolding m by (rule stock_overwritten)
  have mem: "v \<in> set (variants d)" using res by (rule resolveVariant_mem)
  have n: "(\<forall>r \<in> set (variants d). 0 \<le> Variant.stock_count r) \<longrightarrow>
        (\<forall>r \<in> set (variants (decrementItem replies item d)). 0 \<le> Variant.stock_count r)"
    by (rule impI) (rule decrementItem_keeps_nonneg)
  have c: "Variant.stock_count v = 2 \<and> OrderItem.quantity item = 5 \<longrightarrow>
        (\<forall>r \<in> set (variants (decrementItem replies item d)).
           Variant.id r = Variant.id v \<longrightarrow> Variant.stock_count r = 0)"
  proof (intro impI ballI)
    fix r
    assume q: "Variant.stock_count v = 2 \<and> OrderItem.quantity item = 5"
      and "r \<in> set (variants (decrementItem replies item d))" and "Variant.id r = Variant.id v"
    then have "Variant.stock_count r = max 0 (Variant.stock_count v - OrderItem.quantity item)"
      by (intro pt)
    also have "\<dots> = 0" using q by simp
    finally show "Variant.stock_count r = 0" .
  qed
  have w': "\<forall>r \<in> set (variants (decrementItem replies item d)).
        Variant.id r = Variant.id v \<longrightarrow>
          Variant.stock_count r = max 0 (Variant.stock_count v - OrderItem.quantity item) \<and>
          0 \<le> Variant.stock_count r"
  proof (intro impI ballI)
    fix r
    assume "r \<in> set (variants (decrementItem replies item d))" and "Variant.id r = Variant.id v"
    then have e: "Variant.stock_count r = max 0 (Variant.stock_count v - OrderItem.quantity item)"
      by (intro pt)
    have "0 \<le> max 0 (Variant.stock_count v - OrderItem.quantity item)" by simp
    with e show "Variant.stock_count r = max 0 (Variant.stock_count v - OrderItem.quantity item) \<and>
          0 \<le> Variant.stock_count r" by (simp only: simp_thms)
  qed
  show ?thesis
    by (intro conjI) (rule m, rule mem, rule w', rule c, rule n)
qed

lemma shopDB_fields:
  "products shopDB = [\<lparr>Product.id = ''p1'', name = ''Monsoon Malabar''\<rparr>,
                      \<lparr>Product.id = ''p2'', name = ''Mysore Nuggets''\<rparr>]"
  "variants shopDB = [variant1, variant2]" "order_items shopDB = [line1, line2]"
  "orders shopDB = [order1]"
  by (simp_all add: shopDB_def)

lemma okReplies_succeeded: "succeeded okReplies"
  by (simp add: succeeded_def okReplies_def)

lemma selectProducts_updateStock [simp]:
  "selectProducts n (updateStock k m d) = selectProducts n d"
  by (simp add: selectProducts_def updateStock_def)

lemma filter_variants_updateStock:
  "filter (\<lambda>v. Variant.product_id v = pid \<and> Variant.grind_type v = g \<and> Variant.size v = s)
     (map (\<lambda>v. if Variant.id v = k then v\<lparr>stock_count := m\<rparr> else v) xs) =
   map (\<lambda>v. if Variant.id v = k then v\<lparr>stock_count := m\<rparr> else v)
     (filter (\<lambda>v. Variant.product_id v = pid \<and> Variant.grind_type v = g \<and> Variant.size v = s) xs)"
  by (induction xs) simp_all

lemma selectVariants_updateStock:
  "selectVariants pid g s (updateStock k m d) =
   map (\<lambda>v. if Variant.id v = k then v\<lparr>stock_count := m\<rparr> else v) (selectVariants pid g s d)"
  by (simp add: selectVariants_def updateStock_def filter_variants_updateStock take_map)

lemma resolveVariant_updateStock:
  "resolveVariant item (updateStock k m d) =
   map_option (\<lambda>v. if Variant.id v = k then v\<lparr>stock_count := m\<rparr> else v) (resolveVariant item d)"
  by (simp add: resolveVariant_def selectVariants_updateStock split: list.splits)

lemma target_updateStock:
  "map_option Variant.id (resolveVariant item (updateStock k m d)) =
   map_option Variant.id (resolveVariant item d)"
  by (cases "resolveVariant item d") (simp_all add: resolveVariant_updateStock)

lemma ids_updateStock:
  "map Variant.id (variants (updateStock k m d)) = map Variant.id (variants d)"
  by (simp add: updateStock_def comp_def if_distrib cong: if_cong)

lemma target_decrementItem:
  "map_option Variant.id (resolveVariant item (decrementItem replies it d)) =
   map_option Variant.id (resolveVariant item d)"
  using decrementItem_cases [of replies it d] by (auto simp: target_updateStock)

lemma ids_decrementItem:
  "map Variant.id (variants (decrementItem replies it d)) = map Variant.id (variants d)"
  using decrementItem_cases [of replies it d] by (auto simp: ids_updateStock)

lemma frame_decrementItem:
  "orders (decrementItem replies it d) = orders d"
  "order_items (decrementItem replies it d) = order_items d"
  "products (decrementItem replies it d) = products d"
  using decrementItem_cases [of replies it d] by (auto simp: updateStock_def)

lemma quantitiesFor_decrementItem:
  "quantitiesFor vid its (decrementItem replies it d) = quantitiesFor vid its d"
  by (simp add: quantitiesFor_def target_decrementItem)

lemma same_id_same_row:
  assumes "distinct (map Variant.id xs)" and "r \<in> set xs" and "v \<in> set xs"
    and "Variant.id r = Variant.id v"
  shows "r = v"
  using assms by (meson distinct_map inj_on_def)

lemma decrementItem_step:
  assumes ok: "succeeded replies" and keys: "distinct (map Variant.id (variants d))"
  shows "variants (decrementItem replies item d) =
     map (\<lambda>r. if map_option Variant.id (resolveVariant item d) = Some (Variant.id r)
               then r\<lparr>stock_count := max 0 (Variant.stock_count r - OrderItem.quantity item)\<rparr>
               else r) (variants d)"
proof (cases "resolveVariant item d")
  case None
  then show ?thesis using ok by (simp add: decrementItem_succeeded)
next
  case (Some v)
  then have mem: "v \<in> set (variants d)" by (rule resolveVariant_mem)
  have "map (\<lambda>r. if Variant.id r = Variant.id v
                 then r\<lparr>stock_count := max 0 (Variant.stock_count v - OrderItem.quantity item)\<rparr>
                 else r) (variants d) =
        map (\<lambda>r. if Variant.id v = Variant.id r
               then r\<lparr>stock_count := max 0 (Variant.stock_count r - OrderItem.quantity item)\<rparr>
               else r) (variants d)"
  proof (rule map_cong [OF refl])
    fix r
    assume r: "r \<in> set (variants d)"
    show "(if Variant.id r = Variant.id v
           then r\<lparr>stock_count := max 0 (Variant.stock_count v - OrderItem.quantity item)\<rparr>
           else r) =
          (if Variant.id v = Variant.id r
           then r\<lparr>stock_count := max 0 (Variant.stock_count r - OrderItem.quantity item)\<rparr>
           else r)"
    proof (cases "Variant.id r = Variant.id v")
      case True
      with keys r mem have "r = v" by (rule same_id_same_row)
      then show ?thesis by simp
    next
      case False
      then show ?thesis by auto
    qed
  qed
  then show ?thesis using ok Some by (simp add: decrementItem_succeeded updateStock_def)
qed

lemma reduceStock_simps:
  "reduceStock [] s = s"
  "reduceStock (q # qs) s = reduceStock qs (max 0 (s - q))"
  "reduceStock (qs @ qs') s = reduceStock qs' (reduceStock qs s)"
  by (simp_all add: reduceStock_def)

lemma quantitiesFor_Cons:
  "quantitiesFor vid (item # its) d =
     (if map_option Variant.id (resolveVariant item d) = Some vid
      then OrderItem.quantity item # quantitiesFor vid its d
      else quantitiesFor vid its d)"
  by (simp add: quantitiesFor_def)

lemma decrementItems_stock:
  assumes "\<forall>k. succeeded (replies k)" and "distinct (map Variant.id (variants d))"
  shows "variants (decrementItems replies k its d) =
     map (\<lambda>r. r\<lparr>stock_count :=
                  reduceStock (quantitiesFor (Variant.id r) its d) (Variant.stock_count r)\<rparr>)
       (variants d)"
  using assms
proof (induction its arbitrary: d k)
  case Nil
  show ?case by (simp add: quantitiesFor_def reduceStock_simps map_idI)
next
  case (Cons item its)
  let ?d1 = "decrementItem (replies k) item d"
  have ok: "succeeded (replies k)" using Cons.prems(1) by simp
  have keys1: "distinct (map Variant.id (variants ?d1))"
    using Cons.prems(2) by (simp add: ids_decrementItem)
  have "variants (decrementItems replies k (item # its) d) =
        variants (decrementItems replies (Suc k) its ?d1)" by simp
  also have "\<dots> = map (\<lambda>r. r\<lparr>stock_count :=
                  reduceStock (quantitiesFor (Variant.id r) its d) (Variant.stock_count r)\<rparr>)
       (variants ?d1)"
    using Cons.IH [OF Cons.prems(1) keys1] by (simp add: quantitiesFor_decrementItem)
  also have "\<dots> = map (\<lambda>r. r\<lparr>stock_count :=
                  reduceStock (quantitiesFor (Variant.id r) (item # its) d) (Variant.stock_count r)\<rparr>)
       (variants d)"
    unfolding decrementItem_step [OF ok Cons.prems(2)] map_map
    by (rule map_cong [OF refl]) (auto simp: quantitiesFor_Cons reduceStock_simps)
  finally show ?case .
qed

lemma decrementItem_orders:
  "decrementItem replies it (d\<lparr>orders := os\<rparr>) = (decrementItem replies it d)\<lparr>orders := os\<rparr>"
  by (cases "products_select replies"; cases "variants_select replies";
      cases "stock_reply replies")
     (simp_all add: decrementItem_def selectProducts_def selectVariants_def updateStock_def
        Let_def split: list.splits)

lemma decrementItems_orders:
  "decrementItems replies k its (d\<lparr>orders := os\<rparr>) =
   (decrementItems replies k its d)\<lparr>orders := os\<rparr>"
  by (induction its arbitrary: d k) (simp_all add: decrementItem_orders)

lemma decrementStockForOrder_orders:
  "decrementStockForOrder sel replies oid (d\<lparr>orders := os\<rparr>) =
   (decrementStockForOrder sel replies oid d)\<lparr>orders := os\<rparr>"
  by (cases sel) (simp_all add: decrementStockForOrder_def selectOrderItems_def decrementItems_orders)

lemma frame_decrementItems:
  "orders (decrementItems replies k its d) = orders d"
  "order_items (decrementItems replies k its d) = order_items d"
  "products (decrementItems replies k its d) = products d"
  by (induction its arbitrary: d k) (simp_all add: frame_decrementItem)

lemma ids_decrementItems:
  "map Variant.id (variants (decrementItems replies k its d)) = map Variant.id (variants d)"
  by (induction its arbitrary: d k) (simp_all add: ids_decrementItem)

lemma quantitiesFor_decrementItems:
  "quantitiesFor vid its' (decrementItems replies k its d) = quantitiesFor vid its' d"
  by (induction its arbitrary: d k) (simp_all add: quantitiesFor_decrementItem)

lemma frame_decrementStockForOrder:
  "orders (decrementStockForOrder sel replies oid d) = orders d"
  "order_items (decrementStockForOrder sel replies oid d) = order_items d"
  by (cases sel; simp add: decrementStockForOrder_def frame_decrementItems)+

lemma find_SomeD: "find P xs = Some x \<Longrightarrow> P x \<and> x \<in> set xs"
  by (induction xs) (auto split: if_splits)

lemma find_status_after_update:
  assumes "oid \<in> Order.id ` set os"
  shows "map_option Order.status
           (find (\<lambda>row. Order.id row = oid)
              (rev (map (\<lambda>row. if Order.id row = oid then row\<lparr>status := s\<rparr> else row) os))) =
         Some s"
proof -
  let ?xs = "rev (map (\<lambda>row. if Order.id row = oid then row\<lparr>status := s\<rparr> else row) os)"
  from assms obtain y where y: "y \<in> set os" "Order.id y = oid" by auto
  then have "y\<lparr>status := s\<rparr> \<in> set ?xs" by force
  then have "\<exists>x \<in> set ?xs. Order.id x = oid" using y(2) by (intro bexI [of _ "y\<lparr>status := s\<rparr>"]) simp_all
  then obtain x where f: "find (\<lambda>row. Order.id row = oid) ?xs = Some x"
    by (cases "find (\<lambda>row. Order.id row = oid) ?xs") (auto simp: find_None_iff)
  from find_SomeD [OF f] have xi: "Order.id x = oid" and "x \<in> set ?xs"
    by blast+
  then obtain z where z: "x = (if Order.id z = oid then z\<lparr>status := s\<rparr> else z)"
    unfolding set_rev set_map by blast
  have "Order.status x = s"
  proof (cases "Order.id z = oid")
    case True
    with z show ?thesis by simp
  next
    case False
    with z xi show ?thesis by simp
  qed
  with f show ?thesis by simp
qed

lemma handleStatusChange_db:
  assumes "\<not> isl (status_reply env)"
  shows "db (handleStatusChange env oid s st) =
     (if shouldDecrementStock
           (map_option Order.status (find (\<lambda>row. Order.id row = oid) (adminOrders st))) s
      then decrementStockForOrder (items_select env) (item_replies env) oid (db st)
      else db st)
     \<lparr>orders := map (\<lambda>row. if Order.id row = oid then row\<lparr>status := s\<rparr> else row)
                   (orders (db st))\<rparr>"
proof -
  from assms obtain r where r: "status_reply env = Inr r" by (cases "status_reply env") simp_all
  show ?thesis
    by (cases "orders_select env"; cases "selectedOrder st")
       (simp_all add: handleStatusChange_def Let_def r updateOrder_def toast_def fetchOrders_def
          decrementStockForOrder_orders)
qed

lemma handleStatusChange_mirror:
  assumes "\<not> isl (status_reply env)" and "\<not> isl (orders_select env)"
  shows "adminOrders (handleStatusChange env oid s st) =
     rev (map (\<lambda>row. if Order.id row = oid then row\<lparr>status := s\<rparr> else row) (orders (db st)))"
proof -
  from assms obtain r r' where r: "status_reply env = Inr r" "orders_select env = Inr r'"
    by (cases "status_reply env"; cases "orders_select env") simp_all
  show ?thesis
    by (cases "selectedOrder st")
       (simp_all add: handleStatusChange_def Let_def r updateOrder_def toast_def fetchOrders_def
          frame_decrementStockForOrder)
qed

lemma order_ids_after_update:
  "Order.id ` set (map (\<lambda>row. if Order.id row = oid then row\<lparr>status := s\<rparr> else row) os) =
   Order.id ` set os"
proof -
  have "map Order.id (map (\<lambda>row. if Order.id row = oid then row\<lparr>status := s\<rparr> else row) os) =
        map Order.id os"
    by (induction os) simp_all
  then have "set (map Order.id (map (\<lambda>row. if Order.id row = oid then row\<lparr>status := s\<rparr> else row) os)) =
        set (map Order.id os)" by simp
  then show ?thesis by (simp only: set_map)
qed

lemma shouldDecrementStock_sequence:
  "shouldDecrementStock (Some ''new'') ''shipped''"
  "\<not> shouldDecrementStock (Some ''shipped'') ''processing''"
  "shouldDecrementStock (Some ''processing'') ''shipped''"
  by (simp_all add: shouldDecrementStock_def)

lemma toggleStatus_db:
  assumes mirror: "find (\<lambda>row. Order.id row = oid) (adminOrders st) = Some ord"
    and new: "Order.status ord = ''new''"
    and stored: "oid \<in> Order.id ` set (orders (db st))"
    and ok: "\<not> isl (status_reply env)" "\<not> isl (orders_select env)"
  shows "variants (db (toggleStatus env oid st)) =
     variants (decrementStockForOrder (items_select env) (item_replies env) oid
                (decrementStockForOrder (items_select env) (item_replies env) oid (db st)))"
proof -
  let ?dec = "decrementStockForOrder (items_select env) (item_replies env) oid"
  let ?set = "\<lambda>s os. map (\<lambda>row. if Order.id row = oid then row\<lparr>status := s\<rparr> else row) os"
  let ?st1 = "handleStatusChange env oid ''shipped'' st"
  let ?st2 = "handleStatusChange env oid ''processing'' ?st1"
  let ?st3 = "handleStatusChange env oid ''shipped'' ?st2"
  have d1: "db ?st1 = (?dec (db st))\<lparr>orders := ?set ''shipped'' (orders (db st))\<rparr>"
    using mirror new by (simp add: handleStatusChange_db [OF ok(1)] shouldDecrementStock_sequence)
  have m1: "adminOrders ?st1 = rev (?set ''shipped'' (orders (db st)))"
    by (rule handleStatusChange_mirror [OF ok])
  have p1: "map_option Order.status (find (\<lambda>row. Order.id row = oid) (adminOrders ?st1)) =
      Some ''shipped''"
    unfolding m1 using stored by (rule find_status_after_update)
  have o1: "orders (db ?st1) = ?set ''shipped'' (orders (db st))"
    unfolding d1 by simp
  have stored1: "oid \<in> Order.id ` set (orders (db ?st1))"
    unfolding o1 order_ids_after_update using stored .
  have d2: "db ?st2 = (db ?st1)\<lparr>orders := ?set ''processing'' (orders (db ?st1))\<rparr>"
    unfolding handleStatusChange_db [OF ok(1)] p1
    by (simp add: shouldDecrementStock_sequence)
  have m2: "adminOrders ?st2 = rev (?set ''processing'' (orders (db ?st1)))"
    by (rule handleStatusChange_mirror [OF ok])
  have p2: "map_option Order.status (find (\<lambda>row. Order.id row = oid) (adminOrders ?st2)) =
      Some ''processing''"
    unfolding m2 using stored1 by (rule find_status_after_update)
  have d3: "db ?st3 = (?dec (db ?st2))\<lparr>orders := ?set ''shipped'' (orders (db ?st2))\<rparr>"
    unfolding handleStatusChange_db [OF ok(1)] p2
    by (simp add: shouldDecrementStock_sequence)
  have "variants (db ?st3) = variants (?dec (db ?st2))"
    unfolding d3 by simp
  also have "\<dots> = variants (?dec (?dec (db st)))"
    unfolding d2 d1 by (simp add: decrementStockForOrder_orders)
  finally show ?thesis by (simp add: toggleStatus_def)
qed

lemma decrementStockForOrder_twice:
  assumes sel: "\<not> isl sel" and ok: "\<forall>k. succeeded (replies k)"
    and keys: "distinct (map Variant.id (variants d))"
  shows "variants (decrementStockForOrder sel replies oid (decrementStockForOrder sel replies oid d)) =
     map (\<lambda>r. r\<lparr>stock_count :=
                  reduceStock (quantitiesFor (Variant.id r) (selectOrderItems oid d) d @
                               quantitiesFor (Variant.id r) (selectOrderItems oid d) d)
                    (Variant.stock_count r)\<rparr>)
       (variants d)"
proof -
  let ?its = "selectOrderItems oid d"
  let ?d1 = "decrementItems replies 0 ?its d"
  from sel obtain x where x: "sel = Inr x" by (cases sel) simp_all
  have its1: "selectOrderItems oid ?d1 = ?its"
    by (simp add: selectOrderItems_def frame_decrementItems)
  have keys1: "distinct (map Variant.id (variants ?d1))"
    using keys by (simp add: ids_decrementItems)
  have "variants (decrementStockForOrder sel replies oid (decrementStockForOrder sel replies oid d)) =
        variants (decrementItems replies 0 ?its ?d1)"
    by (simp add: decrementStockForOrder_def x its1)
  also have "\<dots> = map (\<lambda>r. r\<lparr>stock_count :=
                  reduceStock (quantitiesFor (Variant.id r) ?its d) (Variant.stock_count r)\<rparr>)
       (variants ?d1)"
    unfolding decrementItems_stock [OF ok keys1]
    by (simp add: quantitiesFor_decrementItems)
  also have "\<dots> = map (\<lambda>r. r\<lparr>stock_count :=
                  reduceStock (quantitiesFor (Variant.id r) ?its d @
                               quantitiesFor (Variant.id r) ?its d)
                    (Variant.stock_count r)\<rparr>)
       (variants d)"
    unfolding decrementItems_stock [OF ok keys] map_map
    by (rule map_cong [OF refl]) (simp add: reduceStock_simps)
  finally show ?thesis .
qed

lemma decrementItems_append:
  "decrementItems replies k (xs @ ys) d =
   decrementItems replies (k + length xs) ys (decrementItems replies k xs d)"
  by (induction xs arbitrary: k d) simp_all

lemma target_decrementItems:
  "map_option Variant.id (resolveVariant item (decrementItems replies k its d)) =
   map_option Variant.id (resolveVariant item d)"
  by (induction its arbitrary: d k) (simp_all add: target_decrementItem)

lemma decrementItems_keeps_nonneg:
  "\<forall>v \<in> set (variants d). 0 \<le> Variant.stock_count v \<Longrightarrow>
   \<forall>r \<in> set (variants (decrementItems replies k its d)). 0 \<le> Variant.stock_count r"
proof (induction its arbitrary: d k)
  case Nil
  then show ?case by simp
next
  case (Cons item its)
  have "\<forall>r \<in> set (variants (decrementItem (replies k) item d)). 0 \<le> Variant.stock_count r"
    using Cons.prems by (rule decrementItem_keeps_nonneg)
  then have "\<forall>r \<in> set (variants (decrementItems replies (Suc k) its
      (decrementItem (replies k) item d))). 0 \<le> Variant.stock_count r"
    by (rule Cons.IH)
  then show ?case by simp
qed

lemma decrementStockForOrder_keeps_nonneg:
  assumes "\<forall>v \<in> set (variants d). 0 \<le> Variant.stock_count v"
  shows "\<forall>r \<in> set (variants (decrementStockForOrder sel replies oid d)). 0 \<le> Variant.stock_count r"
proof (cases sel)
  case (Inl e)
  with assms show ?thesis by (simp add: decrementStockForOrder_def)
next
  case (Inr x)
  have "\<forall>r \<in> set (variants (decrementItems replies 0 (selectOrderItems oid d) d)).
      0 \<le> Variant.stock_count r"
    using assms by (rule decrementItems_keeps_nonneg)
  with Inr show ?thesis by (simp add: decrementStockForOrder_def)
qed

lemma decrementStockForOrder_stock:
  assumes sel: "\<not> isl sel" and ok: "\<forall>k. succeeded (replies k)"
    and keys: "distinct (map Variant.id (variants d))"
  shows "variants (decrementStockForOrder sel replies oid d) =
     map (\<lambda>r. r\<lparr>stock_count :=
                  reduceStock (quantitiesFor (Variant.id r) (selectOrderItems oid d) d)
                    (Variant.stock_count r)\<rparr>)
       (variants d)"
proof -
  from sel obtain x where x: "sel = Inr x" by (cases sel) simp_all
  show ?thesis
    unfolding decrementStockForOrder_def x
    using decrementItems_stock [OF ok keys, of 0 "selectOrderItems oid d"] by simp
qed

lemma decrementStockForOrder_pass:
  assumes sel: "\<not> isl sel" and ok: "\<forall>k. succeeded (replies k)"
    and keys: "distinct (map Variant.id (variants d))"
    and split: "selectOrderItems oid d = pre @ item # post"
    and res: "resolveVariant item d = Some v"
  shows "decrementStockForOrder sel replies oid d =
          decrementItems replies (Suc (length pre)) post
            (decrementItem (replies (length pre)) item (decrementItems replies 0 pre d))"
    and "variants (decrementItem (replies (length pre)) item (decrementItems replies 0 pre d)) =
          map (\<lambda>r. if Variant.id r = Variant.id v
                    then r\<lparr>stock_count :=
                           max 0 (Variant.stock_count r - OrderItem.quantity item)\<rparr>
                    else r)
            (variants (decrementItems replies 0 pre d))"
proof -
  let ?dp = "decrementItems replies 0 pre d"
  from sel obtain x where x: "sel = Inr x" by (cases sel) simp_all
  show "decrementStockForOrder sel replies oid d =
          decrementItems replies (Suc (length pre)) post
            (decrementItem (replies (length pre)) item ?dp)"
    by (simp add: decrementStockForOrder_def x split decrementItems_append)
  have keysp: "distinct (map Variant.id (variants ?dp))"
    using keys by (simp add: ids_decrementItems)
  have okp: "succeeded (replies (length pre))" using ok by simp
  have tgt: "map_option Variant.id (resolveVariant item ?dp) = Some (Variant.id v)"
    using res by (simp add: target_decrementItems)
  show "variants (decrementItem (replies (length pre)) item ?dp) =
          map (\<lambda>r. if Variant.id r = Variant.id v
                    then r\<lparr>stock_count :=
                           max 0 (Variant.stock_count r - OrderItem.quantity item)\<rparr>
                    else r)
            (variants ?dp)"
    unfolding decrementItem_step [OF okp keysp] tgt
    by (rule map_cong [OF refl]) auto
qed

lemma decrementStockForOrder_single:
  assumes sel: "\<not> isl sel" and ok: "\<forall>k. succeeded (replies k)"
    and keys: "distinct (map Variant.id (variants d))"
    and res: "resolveVariant item d = Some v"
    and only: "quantitiesFor (Variant.id v) (selectOrderItems oid d) d = [OrderItem.quantity item]"
    and r: "r \<in> set (variants (decrementStockForOrder sel replies oid d))"
    and same: "Variant.id r = Variant.id v"
  shows "Variant.stock_count r = max 0 (Variant.stock_count v - OrderItem.quantity item)"
proof -
  from r obtain r0 where r0: "r0 \<in> set (variants d)"
    and eq: "r = r0\<lparr>stock_count :=
                  reduceStock (quantitiesFor (Variant.id r0) (selectOrderItems oid d) d)
                    (Variant.stock_count r0)\<rparr>"
    unfolding decrementStockForOrder_stock [OF sel ok keys] set_map by blast
  have "Variant.id r0 = Variant.id v" using eq same by simp
  moreover have "v \<in> set (variants d)" using res by (rule resolveVariant_mem)
  ultimately have "r0 = v" using keys r0 by (intro same_id_same_row)
  with eq only show ?thesis by (simp add: reduceStock_def)
qed

text \<open>
  C3. In a run of the inventory decrement routine whose remote calls succeed, over a
  variants table with unique ids: the pass for every order item whose product and variant
  lookups succeed writes \<open>max 0 (old_stock - quantity)\<close> to the variant, \<open>old_stock\<close>
  being the stock the variant holds when the pass starts, so the routine leaves every
  variant with its stock reduced, clamped at zero at each step, by the quantities of the
  order's items that resolve to it. A variant that one item resolves to ends at
  \<open>max 0 (stock - quantity)\<close>, which is never negative: a stock count of 2 decremented
  by quantity 5 gives 0. No run of the routine, whatever the remote store replies, makes
  a non-negative stock count negative.
\<close>
theorem decrement_writes_clamped_stock:
  assumes "\<not> isl sel" and "\<forall>k. succeeded (replies k)"
    and "distinct (map Variant.id (variants d))"
  shows
    "variants (decrementStockForOrder sel replies oid d) =
       map (\<lambda>r. r\<lparr>stock_count :=
                    reduceStock (quantitiesFor (Variant.id r) (selectOrderItems oid d) d)
                      (Variant.stock_count r)\<rparr>)
         (variants d) \<and>
     (selectOrderItems oid d = pre @ item # post \<and> resolveVariant item d = Some v \<longrightarrow>
        decrementStockForOrder sel replies oid d =
          decrementItems replies (Suc (length pre)) post
            (decrementItem (replies (length pre)) item (decrementItems replies 0 pre d)) \<and>
        variants (decrementItem (replies (length pre)) item (decrementItems replies 0 pre d)) =
          map (\<lambda>r. if Variant.id r = Variant.id v
                    then r\<lparr>stock_count :=
                           max 0 (Variant.stock_count r - OrderItem.quantity item)\<rparr>
                    else r)
            (variants (decrementItems replies 0 pre d))) \<and>
     (resolveVariant item' d = Some v' \<and>
      quantitiesFor (Variant.id v') (selectOrderItems oid d) d = [OrderItem.quantity item'] \<longrightarrow>
        (\<forall>r \<in> set (variants (decrementStockForOrder sel replies oid d)).
           Variant.id r = Variant.id v' \<longrightarrow>
             Variant.stock_count r =
               max 0 (Variant.stock_count v' - OrderItem.quantity item') \<and>
             0 \<le> Variant.stock_count r)) \<and>
     (resolveVariant item' d = Some v' \<and>
      quantitiesFor (Variant.id v') (selectOrderItems oid d) d = [OrderItem.quantity item'] \<and>
      Variant.stock_count v' = 2 \<and> OrderItem.quantity item' = 5 \<longrightarrow>
        (\<forall>r \<in> set (variants (decrementStockForOrder sel replies oid d)).
           Variant.id r = Variant.id v' \<longrightarrow> Variant.stock_count r = 0)) \<and>
     ((\<forall>r \<in> set (variants d). 0 \<le> Variant.stock_count r) \<longrightarrow>
        (\<forall>r \<in> set (variants (decrementStockForOrder sel' replies' oid d)).
           0 \<le> Variant.stock_count r))"
proof (intro conjI impI ballI)
  show "variants (decrementStockForOrder sel replies oid d) =
       map (\<lambda>r. r\<lparr>stock_count :=
                    reduceStock (quantitiesFor (Variant.id r) (selectOrderItems oid d) d)
                      (Variant.stock_count r)\<rparr>)
         (variants d)"
    using assms by (rule decrementStockForOrder_stock)
next
  assume a: "selectOrderItems oid d = pre @ item # post \<and> resolveVariant item d = Some v"
  then have s: "selectOrderItems oid d = pre @ item # post" and r: "resolveVariant item d = Some v"
    by blast+
  show "decrementStockForOrder sel replies oid d =
          decrementItems replies (Suc (length pre)) post
            (decrementItem (replies (length pre)) item (decrementItems replies 0 pre d))"
    using assms s r by (rule decrementStockForOrder_pass(1))
  show "variants (decrementItem (replies (length pre)) item (decrementItems replies 0 pre d)) =
          map (\<lambda>r. if Variant.id r = Variant.id v
                    then r\<lparr>stock_count :=
                           max 0 (Variant.stock_count r - OrderItem.quantity item)\<rparr>
                    else r)
            (variants (decrementItems replies 0 pre d))"
    using assms s r by (rule decrementStockForOrder_pass(2))
next
  fix r
  assume a: "resolveVariant item' d = Some v' \<and>
      quantitiesFor (Variant.id v') (selectOrderItems oid d) d = [OrderItem.quantity item']"
    and r: "r \<in> set (variants (decrementStockForOrder sel replies oid d))"
    and i: "Variant.id r = Variant.id v'"
  from a have a1: "resolveVariant item' d = Some v'"
    and a2: "quantitiesFor (Variant.id v') (selectOrderItems oid d) d = [OrderItem.quantity item']"
    by blast+
  show e: "Variant.stock_count r = max 0 (Variant.stock_count v' - OrderItem.quantity item')"
    using assms a1 a2 r i by (rule decrementStockForOrder_single)
  have "0 \<le> max 0 (Variant.stock_count v' - OrderItem.quantity item')" by simp
  then show "0 \<le> Variant.stock_count r" by (simp only: e)
next
  fix r
  assume a: "resolveVariant item' d = Some v' \<and>
      quantitiesFor (Variant.id v') (selectOrderItems oid d) d = [OrderItem.quantity item'] \<and>
      Variant.stock_count v' = 2 \<and> OrderItem.quantity item' = 5"
    and r: "r \<in> set (variants (decrementStockForOrder sel replies oid d))"
    and i: "Variant.id r = Variant.id v'"
  from a have a1: "resolveVariant item' d = Some v'"
    and a2: "quantitiesFor (Variant.id v') (selectOrderItems oid d) d = [OrderItem.quantity item']"
    and a3: "Variant.stock_count v' = 2" and a4: "OrderItem.quantity item' = 5"
    by blast+
  have "Variant.stock_count r = max 0 (Variant.stock_count v' - OrderItem.quantity item')"
    using assms a1 a2 r i by (rule decrementStockForOrder_single)
  also have "\<dots> = 0" by (simp add: a3 a4)
  finally show "Variant.stock_count r = 0" .
next
  fix r
  assume "\<forall>r \<in> set (variants d). 0 \<le> Variant.stock_count r"
  then have "\<forall>r \<in> set (variants (decrementStockForOrder sel' replies' oid d)).
      0 \<le> Variant.stock_count r"
    by (rule decrementStockForOrder_keeps_nonneg)
  moreover assume "r \<in> set (variants (decrementStockForOrder sel' replies' oid d))"
  ultimately show "0 \<le> Variant.stock_count r" by blast
qed

lemma shop_routine:
  "\<not> isl (Inr [] :: string response)"
  "\<forall>k. succeeded ((\<lambda>k. okReplies) k)"
  "distinct (map Variant.id (variants shopDB))"
  "selectOrderItems ''o1'' shopDB = [line1, line2]"
  "resolveVariant line1 shopDB = Some variant1"
  "quantitiesFor (Variant.id variant1) [line1, line2] shopDB = [5]"
  "quantitiesFor (Variant.id variant2) [line1, line2] shopDB = [3]"
  "Variant.stock_count variant1 = 2" "Variant.stock_count variant2 = 10"
  "OrderItem.quantity line1 = 5"
  by (simp_all add: okReplies_succeeded selectOrderItems_def quantitiesFor_def resolveVariant_def
      selectProducts_def selectVariants_def shopDB_fields line1_def line2_def variant1_def
      variant2_def)

theorem decrement_writes_clamped_stock_witness:
  "selectOrderItems ''o1'' shopDB = [line1, line2] \<and>
   resolveVariant line1 shopDB = Some variant1 \<and>
   Variant.stock_count variant1 = 2 \<and> OrderItem.quantity line1 = 5 \<and>
   Variant.stock_count variant2 = 10 \<and>
   variants (decrementStockForOrder (Inr []) (\<lambda>k. okReplies) ''o1'' shopDB) =
     [variant1\<lparr>stock_count := 0\<rparr>, variant2\<lparr>stock_count := 7\<rparr>]"
proof -
  note t = decrement_writes_clamped_stock [OF shop_routine(1) shop_routine(2) shop_routine(3),
      of "''o1''"]
  from t have "variants (decrementStockForOrder (Inr []) (\<lambda>k. okReplies) ''o1'' shopDB) =
       map (\<lambda>r. r\<lparr>stock_count :=
                    reduceStock
                      (quantitiesFor (Variant.id r) (selectOrderItems ''o1'' shopDB) shopDB)
                      (Variant.stock_count r)\<rparr>)
         (variants shopDB)"
    by (rule conjunct1)
  then have "variants (decrementStockForOrder (Inr []) (\<lambda>k. okReplies) ''o1'' shopDB) =
     [variant1\<lparr>stock_count := 0\<rparr>, variant2\<lparr>stock_count := 7\<rparr>]"
    by (simp add: shopDB_fields shop_routine reduceStock_def)
  with shop_routine(4,5,8,10,9) show ?thesis by (intro conjI)
qed

text \<open>
  C2. For an order the admin sees as "new", the status sequence
  new \<rightarrow> shipped \<rightarrow> processing \<rightarrow> shipped (each status update and refetch of the
  orders succeeding) runs the inventory decrement routine on the first and on the third
  transition and not on the second, so the variants end as after two runs of the routine.
  When the routine's own remote calls succeed and variant ids are unique, the stock of
  every variant is reduced, clamped at zero at each step, by the quantities of the order's
  items that resolve to it, and then by the same quantities once more: a variant that one
  item of quantity \<open>q\<close> resolves to ends at \<open>max 0 (max 0 (stock - q) - q)\<close>. Nothing
  records that the order's stock was already decremented.
\<close>
theorem status_toggle_decrements_twice:
  assumes "find (\<lambda>row. Order.id row = oid) (adminOrders st) = Some ord"
    and "Order.status ord = ''new''"
    and "oid \<in> Order.id ` set (orders (db st))"
    and "\<not> isl (status_reply env)" and "\<not> isl (orders_select env)"
  shows
    "shouldDecrementStock (Some ''new'') ''shipped'' \<and>
     \<not> shouldDecrementStock (Some ''shipped'') ''processing'' \<and>
     shouldDecrementStock (Some ''processing'') ''shipped'' \<and>
     variants (db (toggleStatus env oid st)) =
       variants (decrementStockForOrder (items_select env) (item_replies env) oid
                  (decrementStockForOrder (items_select env) (item_replies env) oid (db st))) \<and>
     (\<not> isl (items_select env) \<and> (\<forall>k. succeeded (item_replies env k)) \<and>
      distinct (map Variant.id (variants (db st))) \<longrightarrow>
        variants (db (toggleStatus env oid st)) =
          map (\<lambda>r. r\<lparr>stock_count :=
                       reduceStock
                         (quantitiesFor (Variant.id r) (selectOrderItems oid (db st)) (db st) @
                          quantitiesFor (Variant.id r) (selectOrderItems oid (db st)) (db st))
                         (Variant.stock_count r)\<rparr>)
            (variants (db st))) \<and>
     reduceStock ([q] @ [q]) s = max 0 (max 0 (s - q) - q)"
proof -
  note t = toggleStatus_db [OF assms]
  have two: "\<not> isl (items_select env) \<and> (\<forall>k. succeeded (item_replies env k)) \<and>
      distinct (map Variant.id (variants (db st))) \<longrightarrow>
        variants (db (toggleStatus env oid st)) =
          map (\<lambda>r. r\<lparr>stock_count :=
                       reduceStock
                         (quantitiesFor (Variant.id r) (selectOrderItems oid (db st)) (db st) @
                          quantitiesFor (Variant.id r) (selectOrderItems oid (db st)) (db st))
                         (Variant.stock_count r)\<rparr>)
            (variants (db st))"
  proof
    assume a: "\<not> isl (items_select env) \<and> (\<forall>k. succeeded (item_replies env k)) \<and>
      distinct (map Variant.id (variants (db st)))"
    then have a1: "\<not> isl (items_select env)" and a2: "\<forall>k. succeeded (item_replies env k)"
      and a3: "distinct (map Variant.id (variants (db st)))" by blast+
    show "variants (db (toggleStatus env oid st)) =
          map (\<lambda>r. r\<lparr>stock_count :=
                       reduceStock
                         (quantitiesFor (Variant.id r) (selectOrderItems oid (db st)) (db st) @
                          quantitiesFor (Variant.id r) (selectOrderItems oid (db st)) (db st))
                         (Variant.stock_count r)\<rparr>)
            (variants (db st))"
      unfolding t by (rule decrementStockForOrder_twice [OF a1 a2 a3])
  qed
  have r: "reduceStock ([q] @ [q]) s = max 0 (max 0 (s - q) - q)"
    by (simp add: reduceStock_def)
  show ?thesis
    by (intro conjI) (rule shouldDecrementStock_sequence, rule shouldDecrementStock_sequence,
        rule shouldDecrementStock_sequence, rule t, rule two, rule r)
qed

lemma admin_fields:
  "adminOrders admin = [order1]" "db admin = shopDB"
  by (simp_all add: admin_def guest_def)

lemma adminEnv_fields:
  "\<not> isl (status_reply adminEnv)" "\<not> isl (orders_select adminEnv)" "\<not> isl (items_select adminEnv)"
  "item_replies adminEnv k = okReplies"
  by (simp_all add: adminEnv_def)

lemma shop_quantities:
  "selectOrderItems ''o1'' shopDB = [line1, line2]"
  "quantitiesFor (Variant.id variant1) [line1, line2] shopDB = [5]"
  "quantitiesFor (Variant.id variant2) [line1, line2] shopDB = [3]"
  by (simp_all add: selectOrderItems_def quantitiesFor_def resolveVariant_def selectProducts_def
      selectVariants_def shopDB_fields line1_def line2_def variant1_def variant2_def)

theorem status_toggle_decrements_twice_witness:
  "find (\<lambda>row. Order.id row = ''o1'') (adminOrders admin) = Some order1 \<and>
   Order.status order1 = ''new'' \<and>
   variants (db admin) = [variant1, variant2] \<and>
   Variant.stock_count variant1 = 2 \<and> Variant.stock_count variant2 = 10 \<and>
   map OrderItem.quantity (selectOrderItems ''o1'' (db admin)) = [5, 3] \<and>
   variants (db (toggleStatus adminEnv ''o1'' admin)) =
     [variant1\<lparr>stock_count := 0\<rparr>, variant2\<lparr>stock_count := 4\<rparr>]"
proof -
  have h1: "find (\<lambda>row. Order.id row = ''o1'') (adminOrders admin) = Some order1"
    by (simp add: admin_fields order1_def)
  have h2: "Order.status order1 = ''new''" by (simp add: order1_def)
  have h3: "''o1'' \<in> Order.id ` set (orders (db admin))"
    by (simp add: admin_fields shopDB_fields order1_def)
  note t = status_toggle_decrements_twice [OF h1 h2 h3 adminEnv_fields(1) adminEnv_fields(2), of 0 0]
  have pre: "\<not> isl (items_select adminEnv) \<and> (\<forall>k. succeeded (item_replies adminEnv k)) \<and>
      distinct (map Variant.id (variants (db admin)))"
    by (simp add: adminEnv_fields okReplies_succeeded admin_fields shopDB_fields
        variant1_def variant2_def)
  from t pre have "variants (db (toggleStatus adminEnv ''o1'' admin)) =
          map (\<lambda>r. r\<lparr>stock_count :=
                       reduceStock
                         (quantitiesFor (Variant.id r) (selectOrderItems ''o1'' (db admin)) (db admin) @
                          quantitiesFor (Variant.id r) (selectOrderItems ''o1'' (db admin)) (db admin))
                         (Variant.stock_count r)\<rparr>)
            (variants (db admin))"
    by blast
  then have v: "variants (db (toggleStatus adminEnv ''o1'' admin)) =
     [variant1\<lparr>stock_count := 0\<rparr>, variant2\<lparr>stock_count := 4\<rparr>]"
    by (simp add: admin_fields shopDB_fields shop_quantities reduceStock_def)
       (simp add: variant1_def variant2_def)
  have rest: "variants (db admin) = [variant1, variant2]"
    "Variant.stock_count variant1 = 2" "Variant.stock_count variant2 = 10"
    "map OrderItem.quantity (selectOrderItems ''o1'' (db admin)) = [5, 3]"
    by (simp_all add: admin_fields shopDB_fields shop_quantities variant1_def variant2_def
        line1_def line2_def)
  from h1 h2 rest v show ?thesis by (intro conjI)
qed

end
